theory Spec2Isabelle
  imports Complex_Main
begin

section \<open>Data model\<close>

text \<open>
  The scan endpoints of \<^verbatim>\<open>routes/guard_routes.py\<close> (\<^verbatim>\<open>scan_qr_code\<close>) and
  \<^verbatim>\<open>routes/qr_routes.py\<close> (\<^verbatim>\<open>public_scan_qr_code\<close>) are embedded as functions from
  the state of the database to a result and the new state. Python floats are
  idealised as reals; an exception is a value of type \<open>error\<close>.
\<close>

type_synonym object_id = string

text \<open>The values a MongoDB document holds; a document is a Python dict, kept in key order.\<close>

datatype bson =
    ObjectId object_id
  | Str string
  | Num real
  | Boolean bool
  | Date nat
  | Null
  | Doc "(string \<times> bson) list"

type_synonym document = "(string \<times> bson) list"

text \<open>
  \<^verbatim>\<open>HTTPException(status_code, detail)\<close>, as the routes raise it. \<open>InvalidArgument\<close>
  is the rejection of a malformed request by the request model, which runs before the
  route (see \<open>validate_and_record\<close> below).
\<close>

datatype error =
    HTTPException nat string
  | InvalidArgument

text \<open>A call to an external collaborator either raises or returns.\<close>

datatype 'a outcome = Raises | Returns 'a

record Coordinates =
  latitude :: real
  longitude :: real

record QRScanRequest =
  qrId :: string
  coordinates :: Coordinates
  "notes" :: "string option"

record QRCodePublicScanRequest = QRScanRequest +
  guardEmail :: string
  deviceInfo :: "bson option"

record QRScanResponse =
  scanEventId :: string
  resp_qrId :: string
  locationName :: string
  isWithinRadius :: bool
  distanceFromQR :: real
  address :: string
  scannedAt :: nat
  message :: string

record QRCodePublicScanResponse = QRScanResponse +
  success :: bool
  radiusLimit :: real
  guardName :: string
  areaCity :: string

text \<open>The dict \<^verbatim>\<open>current_guard\<close> that the authentication dependency hands to the route.\<close>

record current_guard =
  cg_guard_id :: object_id
  cg_supervisor_id :: object_id
  cg_name :: string
  cg_email :: string

text \<open>
  The documents the scan reads, with the keys it subscripts. A location always has the
  keys of the query and the keys every route subscripts; \<^verbatim>\<open>areaState\<close> and
  \<^verbatim>\<open>areaCountry\<close>, which \<^verbatim>\<open>get_qr_location_info\<close> reads with \<^verbatim>\<open>.get\<close>, may be absent.
\<close>

record qr_location_doc =
  loc_id :: object_id
  loc_qrId :: string
  loc_supervisorId :: object_id
  loc_isActive :: bool
  loc_locationName :: string
  loc_coordinates :: Coordinates
  loc_areaCity :: string
  loc_areaState :: "string option"
  loc_areaCountry :: "string option"

record user_doc =
  user_id :: object_id
  user_email :: string
  user_role :: string
  user_isActive :: bool
  user_name :: string

record guard_doc =
  guard_id :: object_id
  guard_userId :: object_id
  guard_supervisorId :: object_id

record supervisor_doc =
  sup_id :: object_id
  sup_sheetId :: "string option"
  sup_areaCity :: string

text \<open>
  The database: each \<^verbatim>\<open>get_..._collection()\<close> returns \<^verbatim>\<open>None\<close> or a collection.
  \<open>sheets\<close> holds the rows written by \<^verbatim>\<open>excel_service.append_scan_to_sheet\<close>
  (sheet id, area, row).
\<close>

record world =
  users_collection :: "user_doc list option"
  guards_collection :: "guard_doc list option"
  supervisors_collection :: "supervisor_doc list option"
  qr_locations_collection :: "qr_location_doc list option"
  scan_events_collection :: "document list option"
  sheets :: "(string \<times> string \<times> document) list"

text \<open>
  What one call sees of its surroundings: the distance in metres that the library
  function \<^verbatim>\<open>geopy.distance.geodesic\<close> computes for two points it accepts, the setting
  \<^verbatim>\<open>settings.WITHIN_RADIUS_METERS\<close>, the clock, and what each external service does
  when the call reaches it: \<^verbatim>\<open>tomtom_service.reverse_geocode_enhanced\<close> raises or
  returns \<^verbatim>\<open>None\<close> or a dict, \<^verbatim>\<open>scan_events_collection.insert_one\<close> raises or returns
  the generated id, \<^verbatim>\<open>excel_service.append_scan_to_sheet\<close> raises or returns.
\<close>

record env =
  geodesic :: "real \<times> real \<Rightarrow> real \<times> real \<Rightarrow> real"
  WITHIN_RADIUS_METERS :: real
  utcnow :: nat
  reverse_geocode_enhanced :: "(string \<times> string) list option outcome"
  insert_one :: "object_id outcome"
  append_scan_to_sheet :: "unit outcome"

section \<open>Python built-ins\<close>

text \<open>\<^verbatim>\<open>collection.find_one(filter)\<close>: the first document that matches.\<close>

definition find_one :: "('a \<Rightarrow> bool) \<Rightarrow> 'a list \<Rightarrow> 'a option" where
  "find_one flt docs = List.find flt docs"

text \<open>\<^verbatim>\<open>round(x)\<close> rounds to the nearest integer, a tie to the even one.\<close>

definition round_half_even :: "real \<Rightarrow> int" where
  "round_half_even x =
     (let f = \<lfloor>x\<rfloor>; d = x - of_int f
      in if d < 1 / 2 then f
         else if 1 / 2 < d then f + 1
         else if even f then f else f + 1)"

text \<open>\<^verbatim>\<open>round(x, ndigits)\<close>.\<close>

definition py_round :: "real \<Rightarrow> nat \<Rightarrow> real" where
  "py_round x ndigits = of_int (round_half_even (x * 10 ^ ndigits)) / 10 ^ ndigits"

text \<open>\<^verbatim>\<open>str(n)\<close> for a natural number.\<close>

fun str_nat :: "nat \<Rightarrow> string" where
  "str_nat n =
     (if n < 10 then [''0123456789'' ! n]
      else str_nat (n div 10) @ [''0123456789'' ! (n mod 10)])"

declare str_nat.simps [simp del]

text \<open>
  How an f-string prints a float that holds a value with one decimal (the result of
  \<^verbatim>\<open>round(x, 1)\<close>, below \<^verbatim>\<open>1e16\<close> in size): the integer part, a point, one digit.
\<close>

definition str_float1 :: "real \<Rightarrow> string" where
  "str_float1 x =
     (let k = nat \<lfloor>\<bar>x\<bar> * 10\<rfloor>
      in (if x < 0 then ''-'' else '''') @ str_nat (k div 10) @ ''.'' @ str_nat (k mod 10))"

text \<open>An \<^verbatim>\<open>Optional[str]\<close> stored in a document.\<close>

definition opt_str :: "string option \<Rightarrow> bson" where
  "opt_str s = (case s of None \<Rightarrow> Null | Some t \<Rightarrow> Str t)"

definition opt_bson :: "bson option \<Rightarrow> bson" where
  "opt_bson v = (case v of None \<Rightarrow> Null | Some b \<Rightarrow> b)"

text \<open>\<^verbatim>\<open>d[key]\<close> and \<^verbatim>\<open>key in d\<close> on a document.\<close>

definition field :: "document \<Rightarrow> string \<Rightarrow> bson option" where
  "field d k = map_of d k"

text \<open>
  The call \<^verbatim>\<open>geodesic(a, b).meters\<close>: the library refuses a point whose latitude is
  outside [-90, 90] with \<^verbatim>\<open>ValueError\<close> (a longitude outside [-180, 180] it
  normalises) and otherwise computes the distance.
\<close>

definition geodesic_meters :: "env \<Rightarrow> real \<times> real \<Rightarrow> real \<times> real \<Rightarrow> real outcome" where
  "geodesic_meters e a b =
     (if 90 < \<bar>fst a\<bar> \<or> 90 < \<bar>fst b\<bar> then Raises else Returns (geodesic e a b))"

section \<open>The authenticated scan: \<^verbatim>\<open>scan_qr_code\<close> in \<^verbatim>\<open>routes/guard_routes.py\<close>\<close>

text \<open>
  The body of the route, statement by statement. Every exception other than an
  \<^verbatim>\<open>HTTPException\<close> is caught by the outer handler and becomes status 500; the two inner
  \<^verbatim>\<open>try\<close> blocks (geocoding, Google Sheets) swallow theirs. \<^verbatim>\<open>insert_one\<close> adds the
  generated \<^verbatim>\<open>_id\<close> to the document it stores; when it raises, nothing is stored.
  The distance call may raise \<^verbatim>\<open>ValueError\<close> and the subscripts of \<^verbatim>\<open>areaState\<close> and
  \<^verbatim>\<open>areaCountry\<close> may raise \<^verbatim>\<open>KeyError\<close>; both happen before the insert and end in
  status 500. The reads (\<^verbatim>\<open>find_one\<close>) are taken to return.
\<close>

definition scan_qr_code ::
  "env \<Rightarrow> world \<Rightarrow> current_guard \<Rightarrow> QRScanRequest \<Rightarrow> (error + QRScanResponse) \<times> world" where
  "scan_qr_code e w current_guard scan_request =
    (if qr_locations_collection w = None \<or> scan_events_collection w = None
        \<or> supervisors_collection w = None
     then (Inl (HTTPException 503 ''Database not available''), w)
     else
      let guard_id = cg_guard_id current_guard;
          supervisor_id = cg_supervisor_id current_guard
      in
      case find_one (\<lambda>l. loc_qrId l = qrId scan_request
                          \<and> loc_supervisorId l = supervisor_id
                          \<and> loc_isActive l = True)
             (the (qr_locations_collection w)) of
        None \<Rightarrow> (Inl (HTTPException 404 ''QR code not found or inactive''), w)
      | Some qr_location \<Rightarrow>
         let guard_location =
               (latitude (coordinates scan_request), longitude (coordinates scan_request));
             qr_location_coords =
               (latitude (loc_coordinates qr_location), longitude (loc_coordinates qr_location))
         in
         (case geodesic_meters e guard_location qr_location_coords of
            Raises \<Rightarrow> (Inl (HTTPException 500 ''Failed to process QR scan''), w)
          | Returns distance_meters \<Rightarrow>
         let is_within_radius = (distance_meters \<le> WITHIN_RADIUS_METERS e);
             current_address =
               (case reverse_geocode_enhanced e of
                  Raises \<Rightarrow> []
                | Returns geocode_result \<Rightarrow>
                   (case geocode_result of
                      None \<Rightarrow> []
                    | Some d \<Rightarrow>
                       if d = [] then []
                       else (case map_of d ''formatted_address'' of
                               None \<Rightarrow> [] | Some a \<Rightarrow> a)))
         in
         if loc_areaState qr_location = None \<or> loc_areaCountry qr_location = None
         then (Inl (HTTPException 500 ''Failed to process QR scan''), w)
         else
         let scan_event_doc =
               [(''guardId'', ObjectId guard_id),
                (''supervisorId'', ObjectId supervisor_id),
                (''qrLocationId'', ObjectId (loc_id qr_location)),
                (''qrId'', Str (qrId scan_request)),
                (''locationName'', Str (loc_locationName qr_location)),
                (''coordinates'',
                   Doc [(''latitude'', Num (latitude (coordinates scan_request))),
                        (''longitude'', Num (longitude (coordinates scan_request)))]),
                (''address'', Str current_address),
                (''areaCity'', Str (loc_areaCity qr_location)),
                (''areaState'', Str (the (loc_areaState qr_location))),
                (''areaCountry'', Str (the (loc_areaCountry qr_location))),
                (''isWithinRadius'', Boolean is_within_radius),
                (''distanceFromQR'', Num (py_round distance_meters 2)),
                (''scannedAt'', Date (utcnow e)),
                (''notes'', opt_str (notes scan_request))]
         in
         (case insert_one e of
           Raises \<Rightarrow> (Inl (HTTPException 500 ''Failed to process QR scan''), w)
         | Returns inserted_id \<Rightarrow>
            let w1 = w\<lparr>scan_events_collection :=
                       Some (the (scan_events_collection w)
                             @ [(''_id'', ObjectId inserted_id) # scan_event_doc])\<rparr>;
                w2 =
                  (case find_one (\<lambda>s. sup_id s = supervisor_id)
                          (the (supervisors_collection w1)) of
                     None \<Rightarrow> w1
                   | Some supervisor \<Rightarrow>
                      (case sup_sheetId supervisor of
                         None \<Rightarrow> w1
                       | Some sheetId \<Rightarrow>
                          if sheetId = [] then w1
                          else
                           let scan_event_data =
                                 [(''guard_name'', Str (cg_name current_guard)),
                                  (''guard_email'', Str (cg_email current_guard)),
                                  (''location_name'', Str (loc_locationName qr_location)),
                                  (''qr_id'', Str (qrId scan_request)),
                                  (''scanned_at'', Date (utcnow e)),
                                  (''coordinates'',
                                     Doc [(''latitude'', Num (latitude (coordinates scan_request))),
                                          (''longitude'', Num (longitude (coordinates scan_request)))]),
                                  (''address'', Str current_address),
                                  (''is_within_radius'', Boolean is_within_radius),
                                  (''distance_from_qr'', Num (py_round distance_meters 2)),
                                  (''notes'', opt_str (notes scan_request))]
                           in
                           (case append_scan_to_sheet e of
                              Raises \<Rightarrow> w1
                            | Returns u \<Rightarrow>
                               w1\<lparr>sheets := sheets w1
                                     @ [(sheetId, sup_areaCity supervisor, scan_event_data)]\<rparr>)));
                response =
                  \<lparr>scanEventId = inserted_id,
                   resp_qrId = qrId scan_request,
                   locationName = loc_locationName qr_location,
                   isWithinRadius = is_within_radius,
                   distanceFromQR = py_round distance_meters 2,
                   address = current_address,
                   scannedAt = utcnow e,
                   message =
                     (if is_within_radius then ''QR code scanned successfully''
                      else ''Warning: You are '' @ str_float1 (py_round distance_meters 1)
                           @ ''m away from the QR location'')\<rparr>
            in (Inr response, w2))))"

section \<open>The public scan: \<^verbatim>\<open>public_scan_qr_code\<close> in \<^verbatim>\<open>routes/qr_routes.py\<close>\<close>

text \<open>
  The same steps after the guard has been looked up by the e-mail address of the
  request; the stored document also holds \<^verbatim>\<open>deviceInfo\<close>.
\<close>

definition public_scan_qr_code ::
  "env \<Rightarrow> world \<Rightarrow> QRCodePublicScanRequest \<Rightarrow> (error + QRCodePublicScanResponse) \<times> world" where
  "public_scan_qr_code e w scan_request =
    (if qr_locations_collection w = None \<or> scan_events_collection w = None
        \<or> guards_collection w = None \<or> users_collection w = None
        \<or> supervisors_collection w = None
     then (Inl (HTTPException 503 ''Database not available''), w)
     else
      case find_one (\<lambda>u. user_email u = guardEmail scan_request
                          \<and> user_role u = ''GUARD''
                          \<and> user_isActive u = True)
             (the (users_collection w)) of
        None \<Rightarrow> (Inl (HTTPException 404 ''Guard not found or inactive''), w)
      | Some guard_user \<Rightarrow>
      (case find_one (\<lambda>g. guard_userId g = user_id guard_user) (the (guards_collection w)) of
        None \<Rightarrow> (Inl (HTTPException 404 ''Guard profile not found''), w)
      | Some guard \<Rightarrow>
      (let supervisor_id = guard_supervisorId guard in
      case find_one (\<lambda>l. loc_qrId l = qrId scan_request
                          \<and> loc_supervisorId l = supervisor_id
                          \<and> loc_isActive l = True)
             (the (qr_locations_collection w)) of
        None \<Rightarrow> (Inl (HTTPException 404 ''QR code not found or inactive''), w)
      | Some qr_location \<Rightarrow>
         let guard_location =
               (latitude (coordinates scan_request), longitude (coordinates scan_request));
             qr_location_coords =
               (latitude (loc_coordinates qr_location), longitude (loc_coordinates qr_location))
         in
         (case geodesic_meters e guard_location qr_location_coords of
            Raises \<Rightarrow> (Inl (HTTPException 500 ''Failed to process QR scan''), w)
          | Returns distance_meters \<Rightarrow>
         let is_within_radius = (distance_meters \<le> WITHIN_RADIUS_METERS e);
             current_address =
               (case reverse_geocode_enhanced e of
                  Raises \<Rightarrow> []
                | Returns geocode_result \<Rightarrow>
                   (case geocode_result of
                      None \<Rightarrow> []
                    | Some d \<Rightarrow>
                       if d = [] then []
                       else (case map_of d ''formatted_address'' of
                               None \<Rightarrow> [] | Some a \<Rightarrow> a)))
         in
         if loc_areaState qr_location = None \<or> loc_areaCountry qr_location = None
         then (Inl (HTTPException 500 ''Failed to process QR scan''), w)
         else
         let scan_event_doc =
               [(''guardId'', ObjectId (guard_id guard)),
                (''supervisorId'', ObjectId supervisor_id),
                (''qrLocationId'', ObjectId (loc_id qr_location)),
                (''qrId'', Str (qrId scan_request)),
                (''locationName'', Str (loc_locationName qr_location)),
                (''coordinates'',
                   Doc [(''latitude'', Num (latitude (coordinates scan_request))),
                        (''longitude'', Num (longitude (coordinates scan_request)))]),
                (''address'', Str current_address),
                (''areaCity'', Str (loc_areaCity qr_location)),
                (''areaState'', Str (the (loc_areaState qr_location))),
                (''areaCountry'', Str (the (loc_areaCountry qr_location))),
                (''isWithinRadius'', Boolean is_within_radius),
                (''distanceFromQR'', Num (py_round distance_meters 2)),
                (''scannedAt'', Date (utcnow e)),
                (''notes'', opt_str (notes scan_request)),
                (''deviceInfo'', opt_bson (deviceInfo scan_request))]
         in
         (case insert_one e of
           Raises \<Rightarrow> (Inl (HTTPException 500 ''Failed to process QR scan''), w)
         | Returns inserted_id \<Rightarrow>
            let w1 = w\<lparr>scan_events_collection :=
                       Some (the (scan_events_collection w)
                             @ [(''_id'', ObjectId inserted_id) # scan_event_doc])\<rparr>;
                w2 =
                  (case find_one (\<lambda>s. sup_id s = supervisor_id)
                          (the (supervisors_collection w1)) of
                     None \<Rightarrow> w1
                   | Some supervisor \<Rightarrow>
                      (case sup_sheetId supervisor of
                         None \<Rightarrow> w1
                       | Some sheetId \<Rightarrow>
                          if sheetId = [] then w1
                          else
                           let scan_event_data =
                                 [(''guard_name'', Str (user_name guard_user)),
                                  (''guard_email'', Str (user_email guard_user)),
                                  (''location_name'', Str (loc_locationName qr_location)),
                                  (''qr_id'', Str (qrId scan_request)),
                                  (''scanned_at'', Date (utcnow e)),
                                  (''coordinates'',
                                     Doc [(''latitude'', Num (latitude (coordinates scan_request))),
                                          (''longitude'', Num (longitude (coordinates scan_request)))]),
                                  (''address'', Str current_address),
                                  (''is_within_radius'', Boolean is_within_radius),
                                  (''distance_from_qr'', Num (py_round distance_meters 2)),
                                  (''notes'', opt_str (notes scan_request))]
                           in
                           (case append_scan_to_sheet e of
                              Raises \<Rightarrow> w1
                            | Returns u \<Rightarrow>
                               w1\<lparr>sheets := sheets w1
                                     @ [(sheetId, sup_areaCity supervisor, scan_event_data)]\<rparr>)));
                response =
                  \<lparr>scanEventId = inserted_id,
                   resp_qrId = qrId scan_request,
                   locationName = loc_locationName qr_location,
                   isWithinRadius = is_within_radius,
                   distanceFromQR = py_round distance_meters 2,
                   address = current_address,
                   scannedAt = utcnow e,
                   message =
                     (if is_within_radius then ''QR code scanned successfully''
                      else ''Warning: You are '' @ str_float1 (py_round distance_meters 1)
                           @ ''m away from the QR location''),
                   success = True,
                   radiusLimit = WITHIN_RADIUS_METERS e,
                   guardName = user_name guard_user,
                   areaCity = loc_areaCity qr_location\<rparr>
            in (Inr response, w2))))))"

section \<open>Request validation\<close>

text \<open>
  Modelled from the spec: the request models \<^verbatim>\<open>Coordinates\<close>, \<^verbatim>\<open>QRScanRequest\<close> and
  \<^verbatim>\<open>QRCodePublicScanRequest\<close> of module \<^verbatim>\<open>models\<close> are not among the sources; the routes
  receive a request only after the model has accepted it. The accepted ranges are the
  spec's: latitude in [-90, 90], longitude in [-180, 180].
\<close>

definition valid_coordinates :: "Coordinates \<Rightarrow> bool" where
  "valid_coordinates c =
     (- 90 \<le> latitude c \<and> latitude c \<le> 90 \<and> - 180 \<le> longitude c \<and> longitude c \<le> 180)"

text \<open>
  Modelled from the spec: \<^verbatim>\<open>validate_and_record\<close>, the operation as the HTTP layer exposes
  it. Malformed coordinates or an empty \<^verbatim>\<open>qr_id\<close> are rejected with \<open>InvalidArgument\<close>
  before the route runs; otherwise the route runs.
\<close>

definition validate_and_record ::
  "env \<Rightarrow> world \<Rightarrow> current_guard \<Rightarrow> QRScanRequest \<Rightarrow> (error + QRScanResponse) \<times> world" where
  "validate_and_record e w actor req =
     (if qrId req = [] \<or> \<not> valid_coordinates (coordinates req) then (Inl InvalidArgument, w)
      else scan_qr_code e w actor req)"

text \<open>Modelled from the spec: the same for the public route.\<close>

definition public_validate_and_record ::
  "env \<Rightarrow> world \<Rightarrow> QRCodePublicScanRequest \<Rightarrow> (error + QRCodePublicScanResponse) \<times> world" where
  "public_validate_and_record e w req =
     (if qrId req = [] \<or> \<not> valid_coordinates (coordinates req) then (Inl InvalidArgument, w)
      else public_scan_qr_code e w req)"

section \<open>Sequences of scans\<close>

text \<open>
  A call of one of the two scan routes, with the surroundings it runs in, and the state
  of the database after a sequence of such calls.
\<close>

datatype call =
    GuardScan env current_guard QRScanRequest
  | PublicScan env QRCodePublicScanRequest

fun perform :: "world \<Rightarrow> call \<Rightarrow> world" where
  "perform w (GuardScan e current_guard scan_request) =
     snd (scan_qr_code e w current_guard scan_request)"
| "perform w (PublicScan e scan_request) = snd (public_scan_qr_code e w scan_request)"

definition run :: "world \<Rightarrow> call list \<Rightarrow> world" where
  "run w calls = foldl perform w calls"

section \<open>Queries and projections used in the statements\<close>

text \<open>The location query of both routes: by QR id, owning supervisor and active flag.\<close>

definition active_location :: "world \<Rightarrow> object_id \<Rightarrow> string \<Rightarrow> qr_location_doc option" where
  "active_location w supervisor_id qr =
     find_one (\<lambda>l. loc_qrId l = qr \<and> loc_supervisorId l = supervisor_id \<and> loc_isActive l = True)
       (the (qr_locations_collection w))"

text \<open>The guard that the public route resolves from the e-mail address of the request.\<close>

definition resolve_guard :: "world \<Rightarrow> string \<Rightarrow> (user_doc \<times> guard_doc) option" where
  "resolve_guard w email =
     (case find_one (\<lambda>u. user_email u = email \<and> user_role u = ''GUARD'' \<and> user_isActive u = True)
             (the (users_collection w)) of
        None \<Rightarrow> None
      | Some guard_user \<Rightarrow>
         (case find_one (\<lambda>g. guard_userId g = user_id guard_user) (the (guards_collection w)) of
            None \<Rightarrow> None
          | Some guard \<Rightarrow> Some (guard_user, guard)))"

text \<open>The distance the routes compute for a request and a location.\<close>

definition distance_to :: "env \<Rightarrow> Coordinates \<Rightarrow> qr_location_doc \<Rightarrow> real" where
  "distance_to e c l =
     geodesic e (latitude c, longitude c)
       (latitude (loc_coordinates l), longitude (loc_coordinates l))"

text \<open>
  What a route needs of the reported coordinates and of the resolved location to reach
  the insert: both latitudes within [-90, 90], so that the distance call returns, and
  the keys \<^verbatim>\<open>areaState\<close> and \<^verbatim>\<open>areaCountry\<close> present in the location document.
\<close>

definition scannable :: "Coordinates \<Rightarrow> qr_location_doc \<Rightarrow> bool" where
  "scannable c l =
     (\<bar>latitude c\<bar> \<le> 90 \<and> \<bar>latitude (loc_coordinates l)\<bar> \<le> 90
      \<and> loc_areaState l \<noteq> None \<and> loc_areaCountry l \<noteq> None)"

text \<open>The verdict of a call: the error, or the flag, the distance and the message.\<close>

definition verdict :: "error + 'a QRScanResponse_scheme \<Rightarrow> error + bool \<times> real \<times> string" where
  "verdict res =
     (case res of Inl err \<Rightarrow> Inl err
      | Inr r \<Rightarrow> Inr (isWithinRadius r, distanceFromQR r, message r))"

text \<open>The address both routes take from the answer of the geocoder.\<close>

definition geocoded_address :: "env \<Rightarrow> string" where
  "geocoded_address e =
     (case reverse_geocode_enhanced e of
        Raises \<Rightarrow> []
      | Returns geocode_result \<Rightarrow>
         (case geocode_result of
            None \<Rightarrow> []
          | Some d \<Rightarrow>
             if d = [] then []
             else (case map_of d ''formatted_address'' of None \<Rightarrow> [] | Some a \<Rightarrow> a)))"

text \<open>The scan events stored in a state of the database.\<close>

definition events :: "world \<Rightarrow> document list" where
  "events w = the (scan_events_collection w)"

section \<open>A concrete database\<close>

text \<open>
  One supervisor with one guard and two locations, the second one inactive; one scan
  event is already stored. The surroundings are given by the distance the library
  reports and by what the geocoder and the event store do; the radius is 50 metres and
  the spreadsheet service raises.
\<close>

definition demo_location :: qr_location_doc where
  "demo_location =
     \<lparr>loc_id = ''loc1'', loc_qrId = ''QR-GATE'', loc_supervisorId = ''sup1'',
      loc_isActive = True, loc_locationName = ''Main Gate'',
      loc_coordinates = \<lparr>latitude = 129716 / 10000, longitude = 775946 / 10000\<rparr>,
      loc_areaCity = ''Bengaluru'', loc_areaState = Some ''Karnataka'',
      loc_areaCountry = Some ''India''\<rparr>"

definition demo_world :: world where
  "demo_world =
     \<lparr>users_collection =
        Some [\<lparr>user_id = ''u1'', user_email = ''guard@example.org'', user_role = ''GUARD'',
               user_isActive = True, user_name = ''Asha''\<rparr>],
      guards_collection =
        Some [\<lparr>guard_id = ''g1'', guard_userId = ''u1'', guard_supervisorId = ''sup1''\<rparr>],
      supervisors_collection =
        Some [\<lparr>sup_id = ''sup1'', sup_sheetId = Some ''sheet1'', sup_areaCity = ''Bengaluru''\<rparr>],
      qr_locations_collection =
        Some [demo_location,
              demo_location\<lparr>loc_id := ''loc2'', loc_qrId := ''QR-OLD'', loc_isActive := False\<rparr>],
      scan_events_collection = Some [[(''_id'', ObjectId ''ev0'')]],
      sheets = []\<rparr>"

definition demo_guard :: current_guard where
  "demo_guard =
     \<lparr>cg_guard_id = ''g1'', cg_supervisor_id = ''sup1'', cg_name = ''Asha'',
      cg_email = ''guard@example.org''\<rparr>"

definition demo_request :: "string \<Rightarrow> real \<Rightarrow> real \<Rightarrow> QRScanRequest" where
  "demo_request qr lat lon =
     \<lparr>qrId = qr, coordinates = \<lparr>latitude = lat, longitude = lon\<rparr>, notes = None\<rparr>"

definition demo_public_request :: "string \<Rightarrow> real \<Rightarrow> real \<Rightarrow> QRCodePublicScanRequest" where
  "demo_public_request qr lat lon =
     \<lparr>qrId = qr, coordinates = \<lparr>latitude = lat, longitude = lon\<rparr>, notes = None,
      guardEmail = ''guard@example.org'', deviceInfo = Some (Str ''android'')\<rparr>"

definition demo_env ::
  "real \<Rightarrow> (string \<times> string) list option outcome \<Rightarrow> object_id outcome \<Rightarrow> env" where
  "demo_env d geo ins =
     \<lparr>geodesic = (\<lambda>p q. d), WITHIN_RADIUS_METERS = 50, utcnow = 1700000000,
      reverse_geocode_enhanced = geo, insert_one = ins, append_scan_to_sheet = Raises\<rparr>"

section \<open>What each route returns and stores\<close>

text \<open>
  One lemma for each way through a route: a missing collection, an unresolved location,
  a refused latitude or a missing key, a failed insert, and the successful scan with its
  response and its stored document.
\<close>


lemma scannable_D:
  "scannable c l \<Longrightarrow>
   geodesic_meters e (latitude c, longitude c)
       (latitude (loc_coordinates l), longitude (loc_coordinates l)) =
     Returns (distance_to e c l)
   \<and> (\<exists>st co. loc_areaState l = Some st \<and> loc_areaCountry l = Some co)"
  by (auto simp: scannable_def geodesic_meters_def distance_to_def)

lemma not_scannable_D:
  "\<not> scannable c l \<Longrightarrow>
   geodesic_meters e (latitude c, longitude c)
       (latitude (loc_coordinates l), longitude (loc_coordinates l)) = Raises
   \<or> loc_areaState l = None \<or> loc_areaCountry l = None"
  by (auto simp: scannable_def geodesic_meters_def)

lemma scan_qr_code_unavailable:
  "qr_locations_collection w = None \<or> scan_events_collection w = None
     \<or> supervisors_collection w = None \<Longrightarrow>
   scan_qr_code e w cg req = (Inl (HTTPException 503 ''Database not available''), w)"
  by (simp add: scan_qr_code_def)

lemma scan_qr_code_not_found:
  "qr_locations_collection w = Some locs \<Longrightarrow> scan_events_collection w = Some evs \<Longrightarrow>
   supervisors_collection w = Some sups \<Longrightarrow>
   active_location w (cg_supervisor_id cg) (qrId req) = None \<Longrightarrow>
   scan_qr_code e w cg req = (Inl (HTTPException 404 ''QR code not found or inactive''), w)"
  by (simp add: scan_qr_code_def active_location_def Let_def)

lemma scan_qr_code_not_scannable:
  assumes c: "qr_locations_collection w = Some locs" "scan_events_collection w = Some evs"
      "supervisors_collection w = Some sups"
    and l: "active_location w (cg_supervisor_id cg) (qrId req) = Some l"
    and n: "\<not> scannable (coordinates req) l"
  shows "scan_qr_code e w cg req = (Inl (HTTPException 500 ''Failed to process QR scan''), w)"
proof (cases "geodesic_meters e (latitude (coordinates req), longitude (coordinates req))
       (latitude (loc_coordinates l), longitude (loc_coordinates l))")
  case Raises
  with c l show ?thesis
    by (simp add: scan_qr_code_def active_location_def Let_def)
next
  case (Returns d)
  with not_scannable_D [OF n, of e]
  have "loc_areaState l = None \<or> loc_areaCountry l = None"
    by simp
  with c l Returns show ?thesis
    by (simp add: scan_qr_code_def active_location_def Let_def)
qed

lemma scan_qr_code_insert_raises:
  assumes c: "qr_locations_collection w = Some locs" "scan_events_collection w = Some evs"
      "supervisors_collection w = Some sups"
    and l: "active_location w (cg_supervisor_id cg) (qrId req) = Some l"
    and i: "insert_one e = Raises"
  shows "scan_qr_code e w cg req = (Inl (HTTPException 500 ''Failed to process QR scan''), w)"
proof (cases "geodesic_meters e (latitude (coordinates req), longitude (coordinates req))
       (latitude (loc_coordinates l), longitude (loc_coordinates l))")
  case Raises
  with c l show ?thesis
    by (simp add: scan_qr_code_def active_location_def Let_def)
next
  case (Returns d)
  with c l i show ?thesis
    by (simp add: scan_qr_code_def active_location_def Let_def)
qed

lemma scan_qr_code_response:
  assumes c: "qr_locations_collection w = Some locs" "scan_events_collection w = Some evs"
      "supervisors_collection w = Some sups"
    and l: "active_location w (cg_supervisor_id cg) (qrId req) = Some l"
    and ok: "scannable (coordinates req) l"
    and i: "insert_one e = Returns i"
  shows "fst (scan_qr_code e w cg req) =
     Inr \<lparr>scanEventId = i, resp_qrId = qrId req, locationName = loc_locationName l,
          isWithinRadius = (distance_to e (coordinates req) l \<le> WITHIN_RADIUS_METERS e),
          distanceFromQR = py_round (distance_to e (coordinates req) l) 2,
          address = geocoded_address e, scannedAt = utcnow e,
          message =
            (if distance_to e (coordinates req) l \<le> WITHIN_RADIUS_METERS e
             then ''QR code scanned successfully''
             else ''Warning: You are '' @ str_float1 (py_round (distance_to e (coordinates req) l) 1)
                  @ ''m away from the QR location'')\<rparr>"
proof -
  from scannable_D [OF ok, of e] obtain st co where
    d: "geodesic_meters e (latitude (coordinates req), longitude (coordinates req))
          (latitude (loc_coordinates l), longitude (loc_coordinates l)) =
        Returns (distance_to e (coordinates req) l)"
    and k: "loc_areaState l = Some st" "loc_areaCountry l = Some co"
    by blast
  from c l d k i show ?thesis
    by (simp add: scan_qr_code_def active_location_def Let_def geocoded_address_def)
qed

lemma scan_qr_code_stored:
  assumes c: "qr_locations_collection w = Some locs" "scan_events_collection w = Some evs"
      "supervisors_collection w = Some sups"
    and l: "active_location w (cg_supervisor_id cg) (qrId req) = Some l"
    and ok: "scannable (coordinates req) l"
    and i: "insert_one e = Returns i"
  shows "scan_events_collection (snd (scan_qr_code e w cg req)) =
     Some (evs @
       [[(''_id'', ObjectId i),
         (''guardId'', ObjectId (cg_guard_id cg)),
         (''supervisorId'', ObjectId (cg_supervisor_id cg)),
         (''qrLocationId'', ObjectId (loc_id l)),
         (''qrId'', Str (qrId req)),
         (''locationName'', Str (loc_locationName l)),
         (''coordinates'',
            Doc [(''latitude'', Num (latitude (coordinates req))),
                 (''longitude'', Num (longitude (coordinates req)))]),
         (''address'', Str (geocoded_address e)),
         (''areaCity'', Str (loc_areaCity l)),
         (''areaState'', Str (the (loc_areaState l))),
         (''areaCountry'', Str (the (loc_areaCountry l))),
         (''isWithinRadius'',
            Boolean (distance_to e (coordinates req) l \<le> WITHIN_RADIUS_METERS e)),
         (''distanceFromQR'', Num (py_round (distance_to e (coordinates req) l) 2)),
         (''scannedAt'', Date (utcnow e)),
         (''notes'', opt_str (notes req))]])"
proof -
  from scannable_D [OF ok, of e] obtain st co where
    d: "geodesic_meters e (latitude (coordinates req), longitude (coordinates req))
          (latitude (loc_coordinates l), longitude (loc_coordinates l)) =
        Returns (distance_to e (coordinates req) l)"
    and k: "loc_areaState l = Some st" "loc_areaCountry l = Some co"
    by blast
  from c l d k i show ?thesis
    by (simp add: scan_qr_code_def active_location_def Let_def geocoded_address_def
        split: option.split outcome.split)
qed

lemma scan_qr_code_success_inv:
  assumes "scan_qr_code e w cg req = (Inr r, w')"
  shows "\<exists>locs evs sups l i. qr_locations_collection w = Some locs
    \<and> scan_events_collection w = Some evs \<and> supervisors_collection w = Some sups
    \<and> active_location w (cg_supervisor_id cg) (qrId req) = Some l
    \<and> scannable (coordinates req) l
    \<and> insert_one e = Returns i"
proof -
  have "\<not> (qr_locations_collection w = None \<or> scan_events_collection w = None
     \<or> supervisors_collection w = None)"
  proof
    assume "qr_locations_collection w = None \<or> scan_events_collection w = None
     \<or> supervisors_collection w = None"
    from scan_qr_code_unavailable [OF this, of e cg req] assms show False by simp
  qed
  then obtain locs evs sups where h: "qr_locations_collection w = Some locs"
    "scan_events_collection w = Some evs" "supervisors_collection w = Some sups"
    by auto
  have "active_location w (cg_supervisor_id cg) (qrId req) \<noteq> None"
    using assms scan_qr_code_not_found [OF h, where cg = cg and req = req and e = e] by auto
  then obtain l where l: "active_location w (cg_supervisor_id cg) (qrId req) = Some l"
    by auto
  have ok: "scannable (coordinates req) l"
  proof (rule ccontr)
    assume "\<not> scannable (coordinates req) l"
    from scan_qr_code_not_scannable [OF h l this, of e] assms show False by simp
  qed
  have "insert_one e \<noteq> Raises"
    using assms scan_qr_code_insert_raises [OF h l, where e = e] by auto
  then obtain i where "insert_one e = Returns i"
    by (cases "insert_one e") auto
  with h l ok show ?thesis by blast
qed

lemma scan_qr_code_failure_unchanged:
  assumes "fst (scan_qr_code e w cg req) = Inl err"
  shows "snd (scan_qr_code e w cg req) = w"
proof (cases "qr_locations_collection w = None \<or> scan_events_collection w = None
     \<or> supervisors_collection w = None")
  case True
  then show ?thesis by (simp add: scan_qr_code_unavailable)
next
  case False
  then obtain locs evs sups where h: "qr_locations_collection w = Some locs"
    "scan_events_collection w = Some evs" "supervisors_collection w = Some sups"
    by auto
  show ?thesis
  proof (cases "active_location w (cg_supervisor_id cg) (qrId req)")
    case None
    then show ?thesis by (simp add: scan_qr_code_not_found [OF h])
  next
    case (Some l)
    show ?thesis
    proof (cases "scannable (coordinates req) l")
      case False
      then show ?thesis by (simp add: scan_qr_code_not_scannable [OF h Some])
    next
      case True
      show ?thesis
      proof (cases "insert_one e")
        case Raises
        then show ?thesis by (simp add: scan_qr_code_insert_raises [OF h Some])
      next
        case (Returns i)
        with assms show ?thesis by (simp add: scan_qr_code_response [OF h Some True])
      qed
    qed
  qed
qed

lemma resolve_guard_SomeD:
  "resolve_guard w email = Some (u, g) \<Longrightarrow>
   find_one (\<lambda>u. user_email u = email \<and> user_role u = ''GUARD'' \<and> user_isActive u = True)
     (the (users_collection w)) = Some u
   \<and> find_one (\<lambda>g. guard_userId g = user_id u) (the (guards_collection w)) = Some g"
  by (auto simp: resolve_guard_def split: option.splits)

lemma public_scan_qr_code_unavailable:
  "qr_locations_collection w = None \<or> scan_events_collection w = None
     \<or> guards_collection w = None \<or> users_collection w = None
     \<or> supervisors_collection w = None \<Longrightarrow>
   public_scan_qr_code e w req = (Inl (HTTPException 503 ''Database not available''), w)"
  by (simp add: public_scan_qr_code_def)

lemma public_scan_qr_code_no_guard:
  "qr_locations_collection w = Some locs \<Longrightarrow> scan_events_collection w = Some evs \<Longrightarrow>
   guards_collection w = Some gs \<Longrightarrow> users_collection w = Some us \<Longrightarrow>
   supervisors_collection w = Some sups \<Longrightarrow>
   resolve_guard w (guardEmail req) = None \<Longrightarrow>
   \<exists>detail. public_scan_qr_code e w req = (Inl (HTTPException 404 detail), w)"
  by (simp add: public_scan_qr_code_def resolve_guard_def split: option.splits)

lemma public_scan_qr_code_not_found:
  assumes c: "qr_locations_collection w = Some locs" "scan_events_collection w = Some evs"
      "guards_collection w = Some gs" "users_collection w = Some us"
      "supervisors_collection w = Some sups"
    and g: "resolve_guard w (guardEmail req) = Some (u, g)"
    and l: "active_location w (guard_supervisorId g) (qrId req) = None"
  shows "public_scan_qr_code e w req =
    (Inl (HTTPException 404 ''QR code not found or inactive''), w)"
  using c l resolve_guard_SomeD [OF g]
  by (simp add: public_scan_qr_code_def active_location_def Let_def)

lemma public_scan_qr_code_not_scannable:
  assumes c: "qr_locations_collection w = Some locs" "scan_events_collection w = Some evs"
      "guards_collection w = Some gs" "users_collection w = Some us"
      "supervisors_collection w = Some sups"
    and g: "resolve_guard w (guardEmail req) = Some (u, g)"
    and l: "active_location w (guard_supervisorId g) (qrId req) = Some l"
    and n: "\<not> scannable (coordinates req) l"
  shows "public_scan_qr_code e w req =
    (Inl (HTTPException 500 ''Failed to process QR scan''), w)"
proof (cases "geodesic_meters e (latitude (coordinates req), longitude (coordinates req))
       (latitude (loc_coordinates l), longitude (loc_coordinates l))")
  case Raises
  with c l resolve_guard_SomeD [OF g] show ?thesis
    by (simp add: public_scan_qr_code_def active_location_def Let_def)
next
  case (Returns d)
  with not_scannable_D [OF n, of e]
  have "loc_areaState l = None \<or> loc_areaCountry l = None"
    by simp
  with c l Returns resolve_guard_SomeD [OF g] show ?thesis
    by (simp add: public_scan_qr_code_def active_location_def Let_def)
qed

lemma public_scan_qr_code_insert_raises:
  assumes c: "qr_locations_collection w = Some locs" "scan_events_collection w = Some evs"
      "guards_collection w = Some gs" "users_collection w = Some us"
      "supervisors_collection w = Some sups"
    and g: "resolve_guard w (guardEmail req) = Some (u, g)"
    and l: "active_location w (guard_supervisorId g) (qrId req) = Some l"
    and i: "insert_one e = Raises"
  shows "public_scan_qr_code e w req =
    (Inl (HTTPException 500 ''Failed to process QR scan''), w)"
proof (cases "geodesic_meters e (latitude (coordinates req), longitude (coordinates req))
       (latitude (loc_coordinates l), longitude (loc_coordinates l))")
  case Raises
  with c l resolve_guard_SomeD [OF g] show ?thesis
    by (simp add: public_scan_qr_code_def active_location_def Let_def)
next
  case (Returns d)
  with c l i resolve_guard_SomeD [OF g] show ?thesis
    by (simp add: public_scan_qr_code_def active_location_def Let_def)
qed

lemma public_scan_qr_code_response:
  assumes c: "qr_locations_collection w = Some locs" "scan_events_collection w = Some evs"
      "guards_collection w = Some gs" "users_collection w = Some us"
      "supervisors_collection w = Some sups"
    and g: "resolve_guard w (guardEmail req) = Some (u, g)"
    and l: "active_location w (guard_supervisorId g) (qrId req) = Some l"
    and ok: "scannable (coordinates req) l"
    and i: "insert_one e = Returns i"
  shows "fst (public_scan_qr_code e w req) =
     Inr \<lparr>scanEventId = i, resp_qrId = qrId req, locationName = loc_locationName l,
          isWithinRadius = (distance_to e (coordinates req) l \<le> WITHIN_RADIUS_METERS e),
          distanceFromQR = py_round (distance_to e (coordinates req) l) 2,
          address = geocoded_address e, scannedAt = utcnow e,
          message =
            (if distance_to e (coordinates req) l \<le> WITHIN_RADIUS_METERS e
             then ''QR code scanned successfully''
             else ''Warning: You are '' @ str_float1 (py_round (distance_to e (coordinates req) l) 1)
                  @ ''m away from the QR location''),
          success = True, radiusLimit = WITHIN_RADIUS_METERS e, guardName = user_name u,
          areaCity = loc_areaCity l\<rparr>"
proof -
  from scannable_D [OF ok, of e] obtain st co where
    d: "geodesic_meters e (latitude (coordinates req), longitude (coordinates req))
          (latitude (loc_coordinates l), longitude (loc_coordinates l)) =
        Returns (distance_to e (coordinates req) l)"
    and k: "loc_areaState l = Some st" "loc_areaCountry l = Some co"
    by blast
  from c l d k i resolve_guard_SomeD [OF g] show ?thesis
    by (simp add: public_scan_qr_code_def active_location_def Let_def geocoded_address_def)
qed

lemma public_scan_qr_code_stored:
  assumes c: "qr_locations_collection w = Some locs" "scan_events_collection w = Some evs"
      "guards_collection w = Some gs" "users_collection w = Some us"
      "supervisors_collection w = Some sups"
    and g: "resolve_guard w (guardEmail req) = Some (u, g)"
    and l: "active_location w (guard_supervisorId g) (qrId req) = Some l"
    and ok: "scannable (coordinates req) l"
    and i: "insert_one e = Returns i"
  shows "scan_events_collection (snd (public_scan_qr_code e w req)) =
     Some (evs @
       [[(''_id'', ObjectId i),
         (''guardId'', ObjectId (guard_id g)),
         (''supervisorId'', ObjectId (guard_supervisorId g)),
         (''qrLocationId'', ObjectId (loc_id l)),
         (''qrId'', Str (qrId req)),
         (''locationName'', Str (loc_locationName l)),
         (''coordinates'',
            Doc [(''latitude'', Num (latitude (coordinates req))),
                 (''longitude'', Num (longitude (coordinates req)))]),
         (''address'', Str (geocoded_address e)),
         (''areaCity'', Str (loc_areaCity l)),
         (''areaState'', Str (the (loc_areaState l))),
         (''areaCountry'', Str (the (loc_areaCountry l))),
         (''isWithinRadius'',
            Boolean (distance_to e (coordinates req) l \<le> WITHIN_RADIUS_METERS e)),
         (''distanceFromQR'', Num (py_round (distance_to e (coordinates req) l) 2)),
         (''scannedAt'', Date (utcnow e)),
         (''notes'', opt_str (notes req)),
         (''deviceInfo'', opt_bson (deviceInfo req))]])"
proof -
  from scannable_D [OF ok, of e] obtain st co where
    d: "geodesic_meters e (latitude (coordinates req), longitude (coordinates req))
          (latitude (loc_coordinates l), longitude (loc_coordinates l)) =
        Returns (distance_to e (coordinates req) l)"
    and k: "loc_areaState l = Some st" "loc_areaCountry l = Some co"
    by blast
  from c l d k i resolve_guard_SomeD [OF g] show ?thesis
    by (simp add: public_scan_qr_code_def active_location_def Let_def geocoded_address_def
        split: option.split outcome.split)
qed

lemma public_scan_qr_code_success_inv:
  assumes "public_scan_qr_code e w req = (Inr r, w')"
  shows "\<exists>locs evs gs us sups u g l i. qr_locations_collection w = Some locs
    \<and> scan_events_collection w = Some evs \<and> guards_collection w = Some gs
    \<and> users_collection w = Some us \<and> supervisors_collection w = Some sups
    \<and> resolve_guard w (guardEmail req) = Some (u, g)
    \<and> active_location w (guard_supervisorId g) (qrId req) = Some l
    \<and> scannable (coordinates req) l
    \<and> insert_one e = Returns i"
proof -
  have "\<not> (qr_locations_collection w = None \<or> scan_events_collection w = None
     \<or> guards_collection w = None \<or> users_collection w = None
     \<or> supervisors_collection w = None)"
  proof
    assume "qr_locations_collection w = None \<or> scan_events_collection w = None
     \<or> guards_collection w = None \<or> users_collection w = None
     \<or> supervisors_collection w = None"
    from public_scan_qr_code_unavailable [OF this, of e req] assms show False by simp
  qed
  then obtain locs evs gs us sups where h: "qr_locations_collection w = Some locs"
    "scan_events_collection w = Some evs" "guards_collection w = Some gs"
    "users_collection w = Some us" "supervisors_collection w = Some sups"
    by auto
  have "resolve_guard w (guardEmail req) \<noteq> None"
  proof
    assume "resolve_guard w (guardEmail req) = None"
    from public_scan_qr_code_no_guard [OF h this, of e] assms show False by auto
  qed
  then obtain u g where ug: "resolve_guard w (guardEmail req) = Some (u, g)"
    by auto
  have "active_location w (guard_supervisorId g) (qrId req) \<noteq> None"
    using assms public_scan_qr_code_not_found [OF h ug, of e] by auto
  then obtain l where l: "active_location w (guard_supervisorId g) (qrId req) = Some l"
    by auto
  have ok: "scannable (coordinates req) l"
  proof (rule ccontr)
    assume "\<not> scannable (coordinates req) l"
    from public_scan_qr_code_not_scannable [OF h ug l this, of e] assms show False by simp
  qed
  have "insert_one e \<noteq> Raises"
    using assms public_scan_qr_code_insert_raises [OF h ug l, of e] by auto
  then obtain i where "insert_one e = Returns i"
    by (cases "insert_one e") auto
  with h ug l ok show ?thesis by blast
qed

lemma public_scan_qr_code_failure_unchanged:
  assumes "fst (public_scan_qr_code e w req) = Inl err"
  shows "snd (public_scan_qr_code e w req) = w"
proof (cases "qr_locations_collection w = None \<or> scan_events_collection w = None
     \<or> guards_collection w = None \<or> users_collection w = None
     \<or> supervisors_collection w = None")
  case True
  then show ?thesis by (simp add: public_scan_qr_code_unavailable)
next
  case False
  then obtain locs evs gs us sups where h: "qr_locations_collection w = Some locs"
    "scan_events_collection w = Some evs" "guards_collection w = Some gs"
    "users_collection w = Some us" "supervisors_collection w = Some sups"
    by auto
  show ?thesis
  proof (cases "resolve_guard w (guardEmail req)")
    case None
    from public_scan_qr_code_no_guard [OF h None, of e] show ?thesis by auto
  next
    case (Some ug)
    then obtain u g where ug: "resolve_guard w (guardEmail req) = Some (u, g)"
      by (cases ug) auto
    show ?thesis
    proof (cases "active_location w (guard_supervisorId g) (qrId req)")
      case None
      then show ?thesis by (simp add: public_scan_qr_code_not_found [OF h ug])
    next
      case (Some l)
      show ?thesis
      proof (cases "scannable (coordinates req) l")
        case False
        then show ?thesis by (simp add: public_scan_qr_code_not_scannable [OF h ug Some])
      next
        case True
        show ?thesis
        proof (cases "insert_one e")
          case Raises
          then show ?thesis by (simp add: public_scan_qr_code_insert_raises [OF h ug Some])
        next
          case (Returns i)
          with assms show ?thesis
            by (simp add: public_scan_qr_code_response [OF h ug Some True])
        qed
      qed
    qed
  qed
qed

section \<open>The concrete database, evaluated\<close>

lemma pair_fst_Inr: "fst p = Inr r \<Longrightarrow> p = (Inr r, snd p)"
  by (cases p) simp

lemma demo_active_location:
  "active_location demo_world ''sup1'' ''QR-GATE'' = Some demo_location"
  by (simp add: active_location_def demo_world_def demo_location_def find_one_def)

lemma demo_resolve_guard:
  "resolve_guard demo_world ''guard@example.org'' =
     Some (\<lparr>user_id = ''u1'', user_email = ''guard@example.org'', user_role = ''GUARD'',
             user_isActive = True, user_name = ''Asha''\<rparr>,
           \<lparr>guard_id = ''g1'', guard_userId = ''u1'', guard_supervisorId = ''sup1''\<rparr>)"
  by (simp add: resolve_guard_def demo_world_def find_one_def)

lemma demo_scan_response:
  "\<bar>lat\<bar> \<le> 90 \<Longrightarrow>
   fst (scan_qr_code (demo_env d geo (Returns i)) demo_world demo_guard
          (demo_request ''QR-GATE'' lat lon)) =
   Inr \<lparr>scanEventId = i, resp_qrId = ''QR-GATE'', locationName = ''Main Gate'',
        isWithinRadius = (d \<le> 50), distanceFromQR = py_round d 2,
        address = geocoded_address (demo_env d geo (Returns i)), scannedAt = 1700000000,
        message =
          (if d \<le> 50 then ''QR code scanned successfully''
           else ''Warning: You are '' @ str_float1 (py_round d 1)
                @ ''m away from the QR location'')\<rparr>"
proof -
  assume lat: "\<bar>lat\<bar> \<le> 90"
  have l: "active_location demo_world (cg_supervisor_id demo_guard)
             (qrId (demo_request ''QR-GATE'' lat lon)) = Some demo_location"
    by (simp add: demo_active_location demo_guard_def demo_request_def)
  have ok: "scannable (coordinates (demo_request ''QR-GATE'' lat lon)) demo_location"
    using lat by (simp add: scannable_def demo_request_def demo_location_def)
  have "fst (scan_qr_code (demo_env d geo (Returns i)) demo_world demo_guard
          (demo_request ''QR-GATE'' lat lon)) = Inr
     \<lparr>scanEventId = i, resp_qrId = qrId (demo_request ''QR-GATE'' lat lon),
      locationName = loc_locationName demo_location,
      isWithinRadius = (distance_to (demo_env d geo (Returns i))
         (coordinates (demo_request ''QR-GATE'' lat lon)) demo_location
           \<le> WITHIN_RADIUS_METERS (demo_env d geo (Returns i))),
      distanceFromQR = py_round (distance_to (demo_env d geo (Returns i))
         (coordinates (demo_request ''QR-GATE'' lat lon)) demo_location) 2,
      address = geocoded_address (demo_env d geo (Returns i)),
      scannedAt = utcnow (demo_env d geo (Returns i)),
      message =
        (if distance_to (demo_env d geo (Returns i))
              (coordinates (demo_request ''QR-GATE'' lat lon)) demo_location
            \<le> WITHIN_RADIUS_METERS (demo_env d geo (Returns i))
         then ''QR code scanned successfully''
         else ''Warning: You are '' @ str_float1 (py_round (distance_to (demo_env d geo (Returns i))
              (coordinates (demo_request ''QR-GATE'' lat lon)) demo_location) 1)
              @ ''m away from the QR location'')\<rparr>"
    by (rule scan_qr_code_response [OF _ _ _ l ok]) (simp_all add: demo_world_def demo_env_def)
  then show ?thesis
    by (simp add: distance_to_def demo_env_def demo_request_def demo_location_def)
qed

lemma demo_public_scan_response:
  "\<bar>lat\<bar> \<le> 90 \<Longrightarrow>
   fst (public_scan_qr_code (demo_env d geo (Returns i)) demo_world
          (demo_public_request ''QR-GATE'' lat lon)) =
   Inr \<lparr>scanEventId = i, resp_qrId = ''QR-GATE'', locationName = ''Main Gate'',
        isWithinRadius = (d \<le> 50), distanceFromQR = py_round d 2,
        address = geocoded_address (demo_env d geo (Returns i)), scannedAt = 1700000000,
        message =
          (if d \<le> 50 then ''QR code scanned successfully''
           else ''Warning: You are '' @ str_float1 (py_round d 1)
                @ ''m away from the QR location''),
        success = True, radiusLimit = 50, guardName = ''Asha'', areaCity = ''Bengaluru''\<rparr>"
proof -
  let ?e = "demo_env d geo (Returns i)"
  let ?q = "demo_public_request ''QR-GATE'' lat lon"
  let ?u = "\<lparr>user_id = ''u1'', user_email = ''guard@example.org'', user_role = ''GUARD'',
             user_isActive = True, user_name = ''Asha''\<rparr>"
  let ?g = "\<lparr>guard_id = ''g1'', guard_userId = ''u1'', guard_supervisorId = ''sup1''\<rparr>"
  have g: "resolve_guard demo_world (guardEmail ?q) = Some (?u, ?g)"
    by (simp add: demo_resolve_guard demo_public_request_def)
  have l: "active_location demo_world (guard_supervisorId ?g) (qrId ?q) = Some demo_location"
    by (simp add: demo_active_location demo_public_request_def)
  assume lat: "\<bar>lat\<bar> \<le> 90"
  then have ok: "scannable (coordinates ?q) demo_location"
    by (simp add: scannable_def demo_public_request_def demo_location_def)
  have "fst (public_scan_qr_code ?e demo_world ?q) = Inr
     \<lparr>scanEventId = i, resp_qrId = qrId ?q,
      locationName = loc_locationName demo_location,
      isWithinRadius = (distance_to ?e (coordinates ?q) demo_location
           \<le> WITHIN_RADIUS_METERS ?e),
      distanceFromQR = py_round (distance_to ?e (coordinates ?q) demo_location) 2,
      address = geocoded_address ?e,
      scannedAt = utcnow ?e,
      message =
        (if distance_to ?e (coordinates ?q) demo_location \<le> WITHIN_RADIUS_METERS ?e
         then ''QR code scanned successfully''
         else ''Warning: You are '' @ str_float1 (py_round (distance_to ?e
              (coordinates ?q) demo_location) 1)
              @ ''m away from the QR location''),
      success = True, radiusLimit = WITHIN_RADIUS_METERS ?e, guardName = user_name ?u,
      areaCity = loc_areaCity demo_location\<rparr>"
    by (rule public_scan_qr_code_response [OF _ _ _ _ _ g l ok])
       (simp_all add: demo_world_def demo_env_def)
  then show ?thesis
    by (simp add: distance_to_def demo_env_def demo_public_request_def demo_location_def)
qed

section \<open>The geofence verdict\<close>

text \<open>
  Claim C1. Whenever a scan returns a verdict, the location of the request resolved and
  the flag \<^verbatim>\<open>isWithinRadius\<close> of the verdict is true exactly when the distance the
  library computed, as it is, is at most \<^verbatim>\<open>WITHIN_RADIUS_METERS\<close>; equality counts as
  within. The distance of the verdict is that same value rounded to two decimals, so
  the rounding comes after the comparison. Both routes.
\<close>

theorem within_radius_iff_distance_le_threshold:
  "(scan_qr_code e w cg req = (Inr r, w') \<longrightarrow>
      (\<exists>l. active_location w (cg_supervisor_id cg) (qrId req) = Some l
         \<and> isWithinRadius r = (distance_to e (coordinates req) l \<le> WITHIN_RADIUS_METERS e)
         \<and> distanceFromQR r = py_round (distance_to e (coordinates req) l) 2))
 \<and> (public_scan_qr_code e w preq = (Inr pr, pw') \<longrightarrow>
      (\<exists>u g l. resolve_guard w (guardEmail preq) = Some (u, g)
         \<and> active_location w (guard_supervisorId g) (qrId preq) = Some l
         \<and> isWithinRadius pr = (distance_to e (coordinates preq) l \<le> WITHIN_RADIUS_METERS e)
         \<and> distanceFromQR pr = py_round (distance_to e (coordinates preq) l) 2))"
proof (intro conjI impI)
  assume h: "scan_qr_code e w cg req = (Inr r, w')"
  from scan_qr_code_success_inv [OF h] obtain locs evs sups l i where
    c: "qr_locations_collection w = Some locs" "scan_events_collection w = Some evs"
       "supervisors_collection w = Some sups"
    and l: "active_location w (cg_supervisor_id cg) (qrId req) = Some l"
    and ok: "scannable (coordinates req) l"
    and i: "insert_one e = Returns i"
    by blast
  from scan_qr_code_response [OF c l ok i] h
  have "isWithinRadius r = (distance_to e (coordinates req) l \<le> WITHIN_RADIUS_METERS e)
      \<and> distanceFromQR r = py_round (distance_to e (coordinates req) l) 2"
    by auto
  with l show "\<exists>l. active_location w (cg_supervisor_id cg) (qrId req) = Some l
         \<and> isWithinRadius r = (distance_to e (coordinates req) l \<le> WITHIN_RADIUS_METERS e)
         \<and> distanceFromQR r = py_round (distance_to e (coordinates req) l) 2"
    by blast
next
  assume h: "public_scan_qr_code e w preq = (Inr pr, pw')"
  from public_scan_qr_code_success_inv [OF h] obtain locs evs gs us sups u g l i where
    c: "qr_locations_collection w = Some locs" "scan_events_collection w = Some evs"
       "guards_collection w = Some gs" "users_collection w = Some us"
       "supervisors_collection w = Some sups"
    and g: "resolve_guard w (guardEmail preq) = Some (u, g)"
    and l: "active_location w (guard_supervisorId g) (qrId preq) = Some l"
    and ok: "scannable (coordinates preq) l"
    and i: "insert_one e = Returns i"
    by blast
  from public_scan_qr_code_response [OF c g l ok i] h
  have "isWithinRadius pr = (distance_to e (coordinates preq) l \<le> WITHIN_RADIUS_METERS e)
      \<and> distanceFromQR pr = py_round (distance_to e (coordinates preq) l) 2"
    by auto
  with g l show "\<exists>u g l. resolve_guard w (guardEmail preq) = Some (u, g)
         \<and> active_location w (guard_supervisorId g) (qrId preq) = Some l
         \<and> isWithinRadius pr = (distance_to e (coordinates preq) l \<le> WITHIN_RADIUS_METERS e)
         \<and> distanceFromQR pr = py_round (distance_to e (coordinates preq) l) 2"
    by blast
qed

text \<open>
  At exactly 50 metres with a radius of 50 the scan is within the radius. At 50.004
  metres it is not, although the rounded distance of the verdict is 50.
\<close>

theorem within_radius_witness:
  "(\<exists>r w'. scan_qr_code (demo_env 50 Raises (Returns ''ev1'')) demo_world demo_guard
              (demo_request ''QR-GATE'' (1297 / 100) (7759 / 100)) = (Inr r, w')
           \<and> isWithinRadius r \<and> distanceFromQR r = 50)
 \<and> (\<exists>r w'. public_scan_qr_code (demo_env (50004 / 1000) Raises (Returns ''ev1'')) demo_world
              (demo_public_request ''QR-GATE'' (1297 / 100) (7759 / 100)) = (Inr r, w')
           \<and> \<not> isWithinRadius r \<and> distanceFromQR r = 50)"
proof (intro conjI)
  let ?e = "demo_env 50 Raises (Returns ''ev1'')"
  let ?q = "demo_request ''QR-GATE'' (1297 / 100) (7759 / 100)"
  let ?s = "scan_qr_code ?e demo_world demo_guard ?q"
  obtain r where r: "fst ?s = Inr r"
    using demo_scan_response by simp
  have h: "?s = (Inr r, snd ?s)"
    by (rule pair_fst_Inr [OF r])
  from within_radius_iff_distance_le_threshold [THEN conjunct1, rule_format, OF h]
  obtain l where l: "active_location demo_world (cg_supervisor_id demo_guard) (qrId ?q) = Some l"
    and f: "isWithinRadius r = (distance_to ?e (coordinates ?q) l \<le> WITHIN_RADIUS_METERS ?e)"
    and d: "distanceFromQR r = py_round (distance_to ?e (coordinates ?q) l) 2"
    by blast
  from f have "isWithinRadius r"
    by (simp add: distance_to_def demo_env_def)
  moreover from d have "distanceFromQR r = 50"
    by (simp add: distance_to_def demo_env_def py_round_def round_half_even_def)
  ultimately show "\<exists>r w'. ?s = (Inr r, w') \<and> isWithinRadius r \<and> distanceFromQR r = 50"
    using h by blast
next
  let ?e = "demo_env (50004 / 1000) Raises (Returns ''ev1'')"
  let ?q = "demo_public_request ''QR-GATE'' (1297 / 100) (7759 / 100)"
  let ?s = "public_scan_qr_code ?e demo_world ?q"
  obtain r where r: "fst ?s = Inr r"
    using demo_public_scan_response by simp
  have h: "?s = (Inr r, snd ?s)"
    by (rule pair_fst_Inr [OF r])
  from within_radius_iff_distance_le_threshold [THEN conjunct2, rule_format, OF h]
  obtain l where
    f: "isWithinRadius r = (distance_to ?e (coordinates ?q) l \<le> WITHIN_RADIUS_METERS ?e)"
    and d: "distanceFromQR r = py_round (distance_to ?e (coordinates ?q) l) 2"
    by blast
  from f have "\<not> isWithinRadius r"
    by (simp add: distance_to_def demo_env_def)
  moreover from d have "distanceFromQR r = 50"
    by (simp add: distance_to_def demo_env_def py_round_def round_half_even_def)
  ultimately show "\<exists>r w'. ?s = (Inr r, w') \<and> \<not> isWithinRadius r \<and> distanceFromQR r = 50"
    using h by blast
qed

section \<open>Recorded and rejected scans\<close>

text \<open>The location query finds nothing exactly when no stored location matches it.\<close>

lemma active_location_None:
  "qr_locations_collection w = Some locs \<Longrightarrow>
   active_location w supervisor_id qr = None \<longleftrightarrow>
     (\<forall>l \<in> set locs. \<not> (loc_qrId l = qr \<and> loc_supervisorId l = supervisor_id \<and> loc_isActive l))"
  by (auto simp: active_location_def find_one_def find_None_iff)



text \<open>
  Claim C3. When no stored location has the QR id of the request, the supervisor of the
  guard and the active flag set, the scan fails with status 404 (not found) and the
  database, the event store included, is unchanged.
\<close>

theorem unresolved_location_not_found:
  "(qr_locations_collection w = Some locs \<and> scan_events_collection w = Some evs
      \<and> supervisors_collection w = Some sups
      \<and> (\<forall>l \<in> set locs. \<not> (loc_qrId l = qrId req
              \<and> loc_supervisorId l = cg_supervisor_id cg \<and> loc_isActive l)) \<longrightarrow>
    scan_qr_code e w cg req = (Inl (HTTPException 404 ''QR code not found or inactive''), w))
 \<and> (qr_locations_collection w = Some locs \<and> scan_events_collection w = Some evs
      \<and> guards_collection w = Some gs \<and> users_collection w = Some us
      \<and> supervisors_collection w = Some sups
      \<and> resolve_guard w (guardEmail preq) = Some (u, g)
      \<and> (\<forall>l \<in> set locs. \<not> (loc_qrId l = qrId preq
              \<and> loc_supervisorId l = guard_supervisorId g \<and> loc_isActive l)) \<longrightarrow>
    public_scan_qr_code e w preq =
      (Inl (HTTPException 404 ''QR code not found or inactive''), w))"
proof (intro conjI impI)
  assume a: "qr_locations_collection w = Some locs \<and> scan_events_collection w = Some evs
      \<and> supervisors_collection w = Some sups
      \<and> (\<forall>l \<in> set locs. \<not> (loc_qrId l = qrId req
              \<and> loc_supervisorId l = cg_supervisor_id cg \<and> loc_isActive l))"
  then have c: "qr_locations_collection w = Some locs" "scan_events_collection w = Some evs"
      "supervisors_collection w = Some sups"
    by simp_all
  from a have "active_location w (cg_supervisor_id cg) (qrId req) = None"
    by (simp add: active_location_None [OF c(1)])
  from scan_qr_code_not_found [OF c this]
  show "scan_qr_code e w cg req = (Inl (HTTPException 404 ''QR code not found or inactive''), w)" .
next
  assume a: "qr_locations_collection w = Some locs \<and> scan_events_collection w = Some evs
      \<and> guards_collection w = Some gs \<and> users_collection w = Some us
      \<and> supervisors_collection w = Some sups
      \<and> resolve_guard w (guardEmail preq) = Some (u, g)
      \<and> (\<forall>l \<in> set locs. \<not> (loc_qrId l = qrId preq
              \<and> loc_supervisorId l = guard_supervisorId g \<and> loc_isActive l))"
  then have c: "qr_locations_collection w = Some locs" "scan_events_collection w = Some evs"
      "guards_collection w = Some gs" "users_collection w = Some us"
      "supervisors_collection w = Some sups"
    and g: "resolve_guard w (guardEmail preq) = Some (u, g)"
    by simp_all
  from a have "active_location w (guard_supervisorId g) (qrId preq) = None"
    by (simp add: active_location_None [OF c(1)])
  from public_scan_qr_code_not_found [OF c g this]
  show "public_scan_qr_code e w preq =
      (Inl (HTTPException 404 ''QR code not found or inactive''), w)" .
qed


text \<open>The collections of the concrete database.\<close>

lemma demo_collections:
  "users_collection demo_world = Some (the (users_collection demo_world))"
  "guards_collection demo_world = Some (the (guards_collection demo_world))"
  "supervisors_collection demo_world = Some (the (supervisors_collection demo_world))"
  "qr_locations_collection demo_world =
     Some [demo_location,
           demo_location\<lparr>loc_id := ''loc2'', loc_qrId := ''QR-OLD'', loc_isActive := False\<rparr>]"
  "scan_events_collection demo_world = Some [[(''_id'', ObjectId ''ev0'')]]"
  by (simp_all add: demo_world_def)

text \<open>
  The two ways a resolved scan ends in the catch-all handler before the insert: a reported
  latitude of 91, and a location document without the key \<^verbatim>\<open>areaState\<close>. Nothing is
  stored.
\<close>

lemma demo_scan_latitude_refused:
  "scan_qr_code (demo_env d geo ins) demo_world demo_guard (demo_request ''QR-GATE'' 91 lon) =
     (Inl (HTTPException 500 ''Failed to process QR scan''), demo_world)"
proof -
  let ?q = "demo_request ''QR-GATE'' 91 lon"
  have l: "active_location demo_world (cg_supervisor_id demo_guard) (qrId ?q) = Some demo_location"
    by (simp add: demo_active_location demo_guard_def demo_request_def)
  have n: "\<not> scannable (coordinates ?q) demo_location"
    by (simp add: scannable_def demo_request_def)
  from scan_qr_code_not_scannable [OF demo_collections(4,5,3) l n] show ?thesis .
qed

lemma demo_scan_missing_key:
  "scan_qr_code (demo_env d geo ins)
     (demo_world\<lparr>qr_locations_collection := Some [demo_location\<lparr>loc_areaState := None\<rparr>]\<rparr>)
     demo_guard (demo_request ''QR-GATE'' (1297 / 100) (7759 / 100)) =
     (Inl (HTTPException 500 ''Failed to process QR scan''),
      demo_world\<lparr>qr_locations_collection := Some [demo_location\<lparr>loc_areaState := None\<rparr>]\<rparr>)"
proof -
  let ?w = "demo_world\<lparr>qr_locations_collection := Some [demo_location\<lparr>loc_areaState := None\<rparr>]\<rparr>"
  let ?q = "demo_request ''QR-GATE'' (1297 / 100) (7759 / 100)"
  have c: "qr_locations_collection ?w = Some [demo_location\<lparr>loc_areaState := None\<rparr>]"
    "scan_events_collection ?w = Some [[(''_id'', ObjectId ''ev0'')]]"
    "supervisors_collection ?w = Some (the (supervisors_collection demo_world))"
    by (simp_all add: demo_world_def)
  have l: "active_location ?w (cg_supervisor_id demo_guard) (qrId ?q) =
      Some (demo_location\<lparr>loc_areaState := None\<rparr>)"
    by (simp add: active_location_def find_one_def demo_guard_def demo_request_def
        demo_location_def)
  have n: "\<not> scannable (coordinates ?q) (demo_location\<lparr>loc_areaState := None\<rparr>)"
    by (simp add: scannable_def)
  from scan_qr_code_not_scannable [OF c l n] show ?thesis .
qed

text \<open>The QR id of the inactive location of the concrete database is not found.\<close>

theorem inactive_location_witness:
  "scan_qr_code (demo_env 0 Raises (Returns ''ev1'')) demo_world demo_guard
     (demo_request ''QR-OLD'' (129716 / 10000) (775946 / 10000)) =
     (Inl (HTTPException 404 ''QR code not found or inactive''), demo_world)
 \<and> public_scan_qr_code (demo_env 0 Raises (Returns ''ev1'')) demo_world
     (demo_public_request ''QR-OLD'' (129716 / 10000) (775946 / 10000)) =
     (Inl (HTTPException 404 ''QR code not found or inactive''), demo_world)"
proof (intro conjI)
  let ?q = "demo_request ''QR-OLD'' (129716 / 10000) (775946 / 10000)"
  have "\<forall>l \<in> set [demo_location,
           demo_location\<lparr>loc_id := ''loc2'', loc_qrId := ''QR-OLD'', loc_isActive := False\<rparr>].
          \<not> (loc_qrId l = qrId ?q \<and> loc_supervisorId l = cg_supervisor_id demo_guard
               \<and> loc_isActive l)"
    by (simp add: demo_location_def demo_request_def)
  with demo_collections unresolved_location_not_found [THEN conjunct1, rule_format,
      of demo_world _ _ _ ?q demo_guard "demo_env 0 Raises (Returns ''ev1'')"]
  show "scan_qr_code (demo_env 0 Raises (Returns ''ev1'')) demo_world demo_guard ?q =
     (Inl (HTTPException 404 ''QR code not found or inactive''), demo_world)"
    by blast
next
  let ?q = "demo_public_request ''QR-OLD'' (129716 / 10000) (775946 / 10000)"
  let ?g = "\<lparr>guard_id = ''g1'', guard_userId = ''u1'', guard_supervisorId = ''sup1''\<rparr>"
  have "\<forall>l \<in> set [demo_location,
           demo_location\<lparr>loc_id := ''loc2'', loc_qrId := ''QR-OLD'', loc_isActive := False\<rparr>].
          \<not> (loc_qrId l = qrId ?q \<and> loc_supervisorId l = guard_supervisorId ?g
               \<and> loc_isActive l)"
    by (simp add: demo_location_def demo_public_request_def)
  moreover have "resolve_guard demo_world (guardEmail ?q) =
     Some (\<lparr>user_id = ''u1'', user_email = ''guard@example.org'', user_role = ''GUARD'',
             user_isActive = True, user_name = ''Asha''\<rparr>, ?g)"
    by (simp add: demo_resolve_guard demo_public_request_def)
  ultimately show "public_scan_qr_code (demo_env 0 Raises (Returns ''ev1'')) demo_world ?q =
     (Inl (HTTPException 404 ''QR code not found or inactive''), demo_world)"
    using demo_collections unresolved_location_not_found [THEN conjunct2, rule_format,
      of demo_world _ _ _ _ _ ?q _ ?g "demo_env 0 Raises (Returns ''ev1'')"]
    by blast
qed

text \<open>
  Claim C4. A request whose latitude is outside [-90, 90] or whose longitude is outside
  [-180, 180] is rejected with \<open>InvalidArgument\<close>; the result does not depend on the
  database or on any external service, and the database is unchanged. The validation is
  the one modelled from the spec above.
\<close>

theorem invalid_coordinates_rejected:
  "(latitude (coordinates req) < - 90 \<or> 90 < latitude (coordinates req)
      \<or> longitude (coordinates req) < - 180 \<or> 180 < longitude (coordinates req) \<longrightarrow>
    validate_and_record e w actor req = (Inl InvalidArgument, w))
 \<and> (latitude (coordinates preq) < - 90 \<or> 90 < latitude (coordinates preq)
      \<or> longitude (coordinates preq) < - 180 \<or> 180 < longitude (coordinates preq) \<longrightarrow>
    public_validate_and_record e w preq = (Inl InvalidArgument, w))"
  by (auto simp: validate_and_record_def public_validate_and_record_def valid_coordinates_def)

text \<open>Latitude 91 and longitude -181 are rejected.\<close>

theorem invalid_coordinates_witness:
  "validate_and_record (demo_env 0 Raises (Returns ''ev1'')) demo_world demo_guard
     (demo_request ''QR-GATE'' 91 (775946 / 10000)) = (Inl InvalidArgument, demo_world)
 \<and> public_validate_and_record (demo_env 0 Raises (Returns ''ev1'')) demo_world
     (demo_public_request ''QR-GATE'' (129716 / 10000) (- 181)) =
     (Inl InvalidArgument, demo_world)"
proof (intro conjI)
  have "90 < latitude (coordinates (demo_request ''QR-GATE'' 91 (775946 / 10000)))"
    by (simp add: demo_request_def)
  with invalid_coordinates_rejected [THEN conjunct1, rule_format]
  show "validate_and_record (demo_env 0 Raises (Returns ''ev1'')) demo_world demo_guard
     (demo_request ''QR-GATE'' 91 (775946 / 10000)) = (Inl InvalidArgument, demo_world)"
    by blast
next
  have "longitude (coordinates (demo_public_request ''QR-GATE'' (129716 / 10000) (- 181)))
          < - 180"
    by (simp add: demo_public_request_def)
  with invalid_coordinates_rejected [THEN conjunct2, rule_format]
  show "public_validate_and_record (demo_env 0 Raises (Returns ''ev1'')) demo_world
     (demo_public_request ''QR-GATE'' (129716 / 10000) (- 181)) =
     (Inl InvalidArgument, demo_world)"
    by blast
qed

text \<open>
  Claim C5. When the insert into the event store raises, the scan fails: the outer
  handler turns the exception into status 500 with the detail
  \<^verbatim>\<open>Failed to process QR scan\<close>, no response is returned, and the database is unchanged,
  so no event, whole or partial, is stored.
\<close>

theorem failed_insert_fails_the_call:
  "(qr_locations_collection w = Some locs \<and> scan_events_collection w = Some evs
      \<and> supervisors_collection w = Some sups
      \<and> active_location w (cg_supervisor_id cg) (qrId req) = Some l
      \<and> insert_one e = Raises \<longrightarrow>
    scan_qr_code e w cg req = (Inl (HTTPException 500 ''Failed to process QR scan''), w))
 \<and> (qr_locations_collection w = Some locs \<and> scan_events_collection w = Some evs
      \<and> guards_collection w = Some gs \<and> users_collection w = Some us
      \<and> supervisors_collection w = Some sups
      \<and> resolve_guard w (guardEmail preq) = Some (u, g)
      \<and> active_location w (guard_supervisorId g) (qrId preq) = Some pl
      \<and> insert_one e = Raises \<longrightarrow>
    public_scan_qr_code e w preq = (Inl (HTTPException 500 ''Failed to process QR scan''), w))"
proof (intro conjI impI)
  assume "qr_locations_collection w = Some locs \<and> scan_events_collection w = Some evs
      \<and> supervisors_collection w = Some sups
      \<and> active_location w (cg_supervisor_id cg) (qrId req) = Some l
      \<and> insert_one e = Raises"
  then show "scan_qr_code e w cg req =
      (Inl (HTTPException 500 ''Failed to process QR scan''), w)"
    using scan_qr_code_insert_raises [of w locs evs sups cg req l e] by blast
next
  assume "qr_locations_collection w = Some locs \<and> scan_events_collection w = Some evs
      \<and> guards_collection w = Some gs \<and> users_collection w = Some us
      \<and> supervisors_collection w = Some sups
      \<and> resolve_guard w (guardEmail preq) = Some (u, g)
      \<and> active_location w (guard_supervisorId g) (qrId preq) = Some pl
      \<and> insert_one e = Raises"
  then show "public_scan_qr_code e w preq =
      (Inl (HTTPException 500 ''Failed to process QR scan''), w)"
    using public_scan_qr_code_insert_raises [of w locs evs gs us sups preq u g pl e] by blast
qed

text \<open>The concrete database with an event store that refuses the insert.\<close>

theorem failed_insert_witness:
  "scan_qr_code (demo_env 0 Raises Raises) demo_world demo_guard
     (demo_request ''QR-GATE'' (129716 / 10000) (775946 / 10000)) =
     (Inl (HTTPException 500 ''Failed to process QR scan''), demo_world)
 \<and> public_scan_qr_code (demo_env 0 Raises Raises) demo_world
     (demo_public_request ''QR-GATE'' (129716 / 10000) (775946 / 10000)) =
     (Inl (HTTPException 500 ''Failed to process QR scan''), demo_world)"
proof (intro conjI)
  let ?q = "demo_request ''QR-GATE'' (129716 / 10000) (775946 / 10000)"
  have "active_location demo_world (cg_supervisor_id demo_guard) (qrId ?q) = Some demo_location"
    by (simp add: demo_active_location demo_guard_def demo_request_def)
  moreover have "insert_one (demo_env 0 Raises Raises) = Raises"
    by (simp add: demo_env_def)
  ultimately show "scan_qr_code (demo_env 0 Raises Raises) demo_world demo_guard ?q =
     (Inl (HTTPException 500 ''Failed to process QR scan''), demo_world)"
    using demo_collections failed_insert_fails_the_call [THEN conjunct1, rule_format,
      of demo_world _ _ _ demo_guard ?q demo_location "demo_env 0 Raises Raises"]
    by blast
next
  let ?q = "demo_public_request ''QR-GATE'' (129716 / 10000) (775946 / 10000)"
  let ?g = "\<lparr>guard_id = ''g1'', guard_userId = ''u1'', guard_supervisorId = ''sup1''\<rparr>"
  have "active_location demo_world (guard_supervisorId ?g) (qrId ?q) = Some demo_location"
    by (simp add: demo_active_location demo_public_request_def)
  moreover have "resolve_guard demo_world (guardEmail ?q) =
     Some (\<lparr>user_id = ''u1'', user_email = ''guard@example.org'', user_role = ''GUARD'',
             user_isActive = True, user_name = ''Asha''\<rparr>, ?g)"
    by (simp add: demo_resolve_guard demo_public_request_def)
  moreover have "insert_one (demo_env 0 Raises Raises) = Raises"
    by (simp add: demo_env_def)
  ultimately show "public_scan_qr_code (demo_env 0 Raises Raises) demo_world ?q =
     (Inl (HTTPException 500 ''Failed to process QR scan''), demo_world)"
    using demo_collections failed_insert_fails_the_call [THEN conjunct2, rule_format,
      of demo_world _ _ _ _ _ ?q _ ?g demo_location "demo_env 0 Raises Raises"]
    by blast
qed

section \<open>Best-effort providers\<close>

text \<open>A geocoder that raises leaves the address empty.\<close>

lemma geocoded_address_Raises:
  "reverse_geocode_enhanced e = Raises \<Longrightarrow> geocoded_address e = []"
  by (simp add: geocoded_address_def)

text \<open>
  Claim C6. Take any scan that returns a response, and replace what the geocoder and the
  spreadsheet service do by anything else, a raised exception included. The scan still
  returns a response, equal to the former one in every field but the address, and the
  address is empty when the geocoder raised. So neither failure reaches the caller or
  changes the verdict. Both routes.
\<close>

theorem provider_failures_are_not_fatal:
  "(scan_qr_code e w cg req = (Inr r, w') \<longrightarrow>
      (\<exists>r2 w2. scan_qr_code (e\<lparr>reverse_geocode_enhanced := geo, append_scan_to_sheet := sh\<rparr>)
                  w cg req = (Inr r2, w2)
         \<and> r2\<lparr>address := address r\<rparr> = r
         \<and> (geo = Raises \<longrightarrow> address r2 = [])))
 \<and> (public_scan_qr_code e w preq = (Inr pr, pw') \<longrightarrow>
      (\<exists>r2 w2. public_scan_qr_code
                  (e\<lparr>reverse_geocode_enhanced := geo, append_scan_to_sheet := sh\<rparr>)
                  w preq = (Inr r2, w2)
         \<and> r2\<lparr>address := address pr\<rparr> = pr
         \<and> (geo = Raises \<longrightarrow> address r2 = [])))"
proof (intro conjI impI)
  let ?e = "e\<lparr>reverse_geocode_enhanced := geo, append_scan_to_sheet := sh\<rparr>"
  let ?s = "scan_qr_code ?e w cg req"
  assume h: "scan_qr_code e w cg req = (Inr r, w')"
  from scan_qr_code_success_inv [OF h] obtain locs evs sups l i where
    c: "qr_locations_collection w = Some locs" "scan_events_collection w = Some evs"
       "supervisors_collection w = Some sups"
    and l: "active_location w (cg_supervisor_id cg) (qrId req) = Some l"
    and ok: "scannable (coordinates req) l"
    and i: "insert_one e = Returns i"
    by blast
  from i have i2: "insert_one ?e = Returns i"
    by simp
  obtain r2 where r2: "fst ?s = Inr r2" and eq: "r2\<lparr>address := address r\<rparr> = r"
    and a: "address r2 = geocoded_address ?e"
    using scan_qr_code_response [OF c l ok i2] scan_qr_code_response [OF c l ok i] h
    by (simp add: distance_to_def)
  have "geo = Raises \<longrightarrow> address r2 = []"
    using a by (simp add: geocoded_address_Raises)
  with eq pair_fst_Inr [OF r2]
  show "\<exists>r2 w2. ?s = (Inr r2, w2) \<and> r2\<lparr>address := address r\<rparr> = r
         \<and> (geo = Raises \<longrightarrow> address r2 = [])"
    by blast
next
  let ?e = "e\<lparr>reverse_geocode_enhanced := geo, append_scan_to_sheet := sh\<rparr>"
  let ?s = "public_scan_qr_code ?e w preq"
  assume h: "public_scan_qr_code e w preq = (Inr pr, pw')"
  from public_scan_qr_code_success_inv [OF h] obtain locs evs gs us sups u g l i where
    c: "qr_locations_collection w = Some locs" "scan_events_collection w = Some evs"
       "guards_collection w = Some gs" "users_collection w = Some us"
       "supervisors_collection w = Some sups"
    and g: "resolve_guard w (guardEmail preq) = Some (u, g)"
    and l: "active_location w (guard_supervisorId g) (qrId preq) = Some l"
    and ok: "scannable (coordinates preq) l"
    and i: "insert_one e = Returns i"
    by blast
  from i have i2: "insert_one ?e = Returns i"
    by simp
  obtain r2 where r2: "fst ?s = Inr r2" and eq: "r2\<lparr>address := address pr\<rparr> = pr"
    and a: "address r2 = geocoded_address ?e"
    using public_scan_qr_code_response [OF c g l ok i2] public_scan_qr_code_response [OF c g l ok i] h
    by (simp add: distance_to_def)
  have "geo = Raises \<longrightarrow> address r2 = []"
    using a by (simp add: geocoded_address_Raises)
  with eq pair_fst_Inr [OF r2]
  show "\<exists>r2 w2. ?s = (Inr r2, w2) \<and> r2\<lparr>address := address pr\<rparr> = pr
         \<and> (geo = Raises \<longrightarrow> address r2 = [])"
    by blast
qed


text \<open>
  A scan whose geocoder answers \<^verbatim>\<open>MG Road\<close>, and the same scan with a geocoder and a
  spreadsheet service that raise.
\<close>

theorem geocoder_failure_witness:
  "(\<exists>r w' r2 w2.
      scan_qr_code (demo_env 20 (Returns (Some [(''formatted_address'', ''MG Road'')]))
          (Returns ''ev1'')) demo_world demo_guard
        (demo_request ''QR-GATE'' (1297 / 100) (7759 / 100)) = (Inr r, w')
    \<and> address r = ''MG Road''
    \<and> scan_qr_code ((demo_env 20 (Returns (Some [(''formatted_address'', ''MG Road'')]))
          (Returns ''ev1''))\<lparr>reverse_geocode_enhanced := Raises, append_scan_to_sheet := Raises\<rparr>)
        demo_world demo_guard
        (demo_request ''QR-GATE'' (1297 / 100) (7759 / 100)) = (Inr r2, w2)
    \<and> address r2 = [] \<and> r2\<lparr>address := ''MG Road''\<rparr> = r)
 \<and> (\<exists>r w' r2 w2.
      public_scan_qr_code (demo_env 20 (Returns (Some [(''formatted_address'', ''MG Road'')]))
          (Returns ''ev1'')) demo_world
        (demo_public_request ''QR-GATE'' (1297 / 100) (7759 / 100)) = (Inr r, w')
    \<and> address r = ''MG Road''
    \<and> public_scan_qr_code ((demo_env 20 (Returns (Some [(''formatted_address'', ''MG Road'')]))
          (Returns ''ev1''))\<lparr>reverse_geocode_enhanced := Raises, append_scan_to_sheet := Raises\<rparr>)
        demo_world
        (demo_public_request ''QR-GATE'' (1297 / 100) (7759 / 100)) = (Inr r2, w2)
    \<and> address r2 = [] \<and> r2\<lparr>address := ''MG Road''\<rparr> = r)"
proof (intro conjI)
  let ?e = "demo_env 20 (Returns (Some [(''formatted_address'', ''MG Road'')])) (Returns ''ev1'')"
  let ?q = "demo_request ''QR-GATE'' (1297 / 100) (7759 / 100)"
  let ?s = "scan_qr_code ?e demo_world demo_guard ?q"
  obtain r where r: "fst ?s = Inr r" and a: "address r = ''MG Road''"
    using demo_scan_response [where d = 20 and geo = "Returns (Some [(''formatted_address'', ''MG Road'')])"]
    by (simp add: geocoded_address_def demo_env_def)
  have h: "?s = (Inr r, snd ?s)"
    by (rule pair_fst_Inr [OF r])
  from provider_failures_are_not_fatal [THEN conjunct1, rule_format, OF h, of Raises Raises] a h
  show "\<exists>r w' r2 w2. ?s = (Inr r, w') \<and> address r = ''MG Road''
    \<and> scan_qr_code (?e\<lparr>reverse_geocode_enhanced := Raises, append_scan_to_sheet := Raises\<rparr>)
        demo_world demo_guard ?q = (Inr r2, w2)
    \<and> address r2 = [] \<and> r2\<lparr>address := ''MG Road''\<rparr> = r"
    by auto
next
  let ?e = "demo_env 20 (Returns (Some [(''formatted_address'', ''MG Road'')])) (Returns ''ev1'')"
  let ?q = "demo_public_request ''QR-GATE'' (1297 / 100) (7759 / 100)"
  let ?s = "public_scan_qr_code ?e demo_world ?q"
  obtain r where r: "fst ?s = Inr r" and a: "address r = ''MG Road''"
    using demo_public_scan_response [where d = 20 and geo = "Returns (Some [(''formatted_address'', ''MG Road'')])"]
    by (simp add: geocoded_address_def demo_env_def)
  have h: "?s = (Inr r, snd ?s)"
    by (rule pair_fst_Inr [OF r])
  from provider_failures_are_not_fatal [THEN conjunct2, rule_format, OF h, of Raises Raises] a h
  show "\<exists>r w' r2 w2. ?s = (Inr r, w') \<and> address r = ''MG Road''
    \<and> public_scan_qr_code
        (?e\<lparr>reverse_geocode_enhanced := Raises, append_scan_to_sheet := Raises\<rparr>)
        demo_world ?q = (Inr r2, w2)
    \<and> address r2 = [] \<and> r2\<lparr>address := ''MG Road''\<rparr> = r"
    by auto
qed

section \<open>The stored event\<close>

text \<open>
  Claim C7 says that the stored event of every successful call holds, among the other
  fields, the optional device metadata. The authenticated route does not: its request
  has no such field and the document it stores has no key for it. The keys of the stored
  documents after one successful authenticated scan on the concrete database:
\<close>

theorem authenticated_scan_stores_no_device_info:
  "fst (scan_qr_code (demo_env 20 Raises (Returns ''ev1'')) demo_world demo_guard
          (demo_request ''QR-GATE'' (1297 / 100) (7759 / 100))) =
     Inr \<lparr>scanEventId = ''ev1'', resp_qrId = ''QR-GATE'', locationName = ''Main Gate'',
          isWithinRadius = True, distanceFromQR = 20, address = [], scannedAt = 1700000000,
          message = ''QR code scanned successfully''\<rparr>
 \<and> map (map fst)
       (events (snd (scan_qr_code (demo_env 20 Raises (Returns ''ev1'')) demo_world demo_guard
          (demo_request ''QR-GATE'' (1297 / 100) (7759 / 100))))) =
     [[''_id''],
      [''_id'', ''guardId'', ''supervisorId'', ''qrLocationId'', ''qrId'', ''locationName'',
       ''coordinates'', ''address'', ''areaCity'', ''areaState'', ''areaCountry'',
       ''isWithinRadius'', ''distanceFromQR'', ''scannedAt'', ''notes'']]
 \<and> field (last (events (snd (scan_qr_code (demo_env 20 Raises (Returns ''ev1'')) demo_world
          demo_guard (demo_request ''QR-GATE'' (1297 / 100) (7759 / 100))))))
       ''deviceInfo'' = None"
proof -
  let ?e = "demo_env 20 Raises (Returns ''ev1'')"
  let ?q = "demo_request ''QR-GATE'' (1297 / 100) (7759 / 100)"
  have l: "active_location demo_world (cg_supervisor_id demo_guard) (qrId ?q) = Some demo_location"
    by (simp add: demo_active_location demo_guard_def demo_request_def)
  have i: "insert_one ?e = Returns ''ev1''"
    by (simp add: demo_env_def)
  have r: "fst (scan_qr_code ?e demo_world demo_guard ?q) =
     Inr \<lparr>scanEventId = ''ev1'', resp_qrId = ''QR-GATE'', locationName = ''Main Gate'',
          isWithinRadius = True, distanceFromQR = 20, address = [], scannedAt = 1700000000,
          message = ''QR code scanned successfully''\<rparr>"
    using demo_scan_response [where d = 20 and geo = Raises and i = "''ev1''"
        and lat = "1297 / 100" and lon = "7759 / 100"]
    by (simp add: py_round_def round_half_even_def geocoded_address_def demo_env_def)
  have ok: "scannable (coordinates ?q) demo_location"
    by (simp add: scannable_def demo_request_def demo_location_def)
  note st = scan_qr_code_stored [OF demo_collections(4,5,3) l ok i]
  show ?thesis
    unfolding events_def st
    by (simp add: r field_def)
qed

text \<open>
  Claim C7, amended. After a scan that returns a response the event store holds one new
  document. It holds the generated id of the response, the guard, the supervisor (the
  owning group), the location, the QR id, the reported coordinates, the flag of the
  distance comparison, the distance rounded to two decimals, the address of the geocoder
  (or the empty string), the time of creation and the note of the request (or null). The
  public route also stores the device information of its request (or null); the
  authenticated route takes none and its document has no such key.
\<close>

theorem stored_event_fields:
  "(scan_qr_code e w cg req = (Inr r, w') \<longrightarrow>
      (\<exists>evs ev l. scan_events_collection w = Some evs
         \<and> scan_events_collection w' = Some (evs @ [ev])
         \<and> active_location w (cg_supervisor_id cg) (qrId req) = Some l
         \<and> map fst ev =
             [''_id'', ''guardId'', ''supervisorId'', ''qrLocationId'', ''qrId'',
              ''locationName'', ''coordinates'', ''address'', ''areaCity'', ''areaState'',
              ''areaCountry'', ''isWithinRadius'', ''distanceFromQR'', ''scannedAt'',
              ''notes'']
         \<and> field ev ''_id'' = Some (ObjectId (scanEventId r))
         \<and> field ev ''guardId'' = Some (ObjectId (cg_guard_id cg))
         \<and> field ev ''supervisorId'' = Some (ObjectId (cg_supervisor_id cg))
         \<and> field ev ''qrLocationId'' = Some (ObjectId (loc_id l))
         \<and> field ev ''qrId'' = Some (Str (qrId req))
         \<and> field ev ''coordinates'' =
             Some (Doc [(''latitude'', Num (latitude (coordinates req))),
                        (''longitude'', Num (longitude (coordinates req)))])
         \<and> field ev ''isWithinRadius'' =
             Some (Boolean (distance_to e (coordinates req) l \<le> WITHIN_RADIUS_METERS e))
         \<and> field ev ''distanceFromQR'' =
             Some (Num (py_round (distance_to e (coordinates req) l) 2))
         \<and> field ev ''address'' = Some (Str (geocoded_address e))
         \<and> field ev ''scannedAt'' = Some (Date (utcnow e))
         \<and> field ev ''notes'' = Some (opt_str (notes req))
         \<and> field ev ''deviceInfo'' = None))
 \<and> (public_scan_qr_code e w preq = (Inr pr, pw') \<longrightarrow>
      (\<exists>evs ev u g l. scan_events_collection w = Some evs
         \<and> scan_events_collection pw' = Some (evs @ [ev])
         \<and> resolve_guard w (guardEmail preq) = Some (u, g)
         \<and> active_location w (guard_supervisorId g) (qrId preq) = Some l
         \<and> map fst ev =
             [''_id'', ''guardId'', ''supervisorId'', ''qrLocationId'', ''qrId'',
              ''locationName'', ''coordinates'', ''address'', ''areaCity'', ''areaState'',
              ''areaCountry'', ''isWithinRadius'', ''distanceFromQR'', ''scannedAt'',
              ''notes'', ''deviceInfo'']
         \<and> field ev ''_id'' = Some (ObjectId (scanEventId pr))
         \<and> field ev ''guardId'' = Some (ObjectId (guard_id g))
         \<and> field ev ''supervisorId'' = Some (ObjectId (guard_supervisorId g))
         \<and> field ev ''qrLocationId'' = Some (ObjectId (loc_id l))
         \<and> field ev ''qrId'' = Some (Str (qrId preq))
         \<and> field ev ''coordinates'' =
             Some (Doc [(''latitude'', Num (latitude (coordinates preq))),
                        (''longitude'', Num (longitude (coordinates preq)))])
         \<and> field ev ''isWithinRadius'' =
             Some (Boolean (distance_to e (coordinates preq) l \<le> WITHIN_RADIUS_METERS e))
         \<and> field ev ''distanceFromQR'' =
             Some (Num (py_round (distance_to e (coordinates preq) l) 2))
         \<and> field ev ''address'' = Some (Str (geocoded_address e))
         \<and> field ev ''scannedAt'' = Some (Date (utcnow e))
         \<and> field ev ''notes'' = Some (opt_str (notes preq))
         \<and> field ev ''deviceInfo'' = Some (opt_bson (deviceInfo preq))))"
proof (intro conjI impI)
  assume h: "scan_qr_code e w cg req = (Inr r, w')"
  from scan_qr_code_success_inv [OF h] obtain locs evs sups l i where
    c: "qr_locations_collection w = Some locs" "scan_events_collection w = Some evs"
       "supervisors_collection w = Some sups"
    and l: "active_location w (cg_supervisor_id cg) (qrId req) = Some l"
    and ok: "scannable (coordinates req) l"
    and i: "insert_one e = Returns i"
    by blast
  from scan_qr_code_response [OF c l ok i] h have id: "scanEventId r = i"
    by auto
  from scan_qr_code_stored [OF c l ok i] h
  have st: "scan_events_collection w' = Some (evs @
       [[(''_id'', ObjectId i),
         (''guardId'', ObjectId (cg_guard_id cg)),
         (''supervisorId'', ObjectId (cg_supervisor_id cg)),
         (''qrLocationId'', ObjectId (loc_id l)),
         (''qrId'', Str (qrId req)),
         (''locationName'', Str (loc_locationName l)),
         (''coordinates'',
            Doc [(''latitude'', Num (latitude (coordinates req))),
                 (''longitude'', Num (longitude (coordinates req)))]),
         (''address'', Str (geocoded_address e)),
         (''areaCity'', Str (loc_areaCity l)),
         (''areaState'', Str (the (loc_areaState l))),
         (''areaCountry'', Str (the (loc_areaCountry l))),
         (''isWithinRadius'',
            Boolean (distance_to e (coordinates req) l \<le> WITHIN_RADIUS_METERS e)),
         (''distanceFromQR'', Num (py_round (distance_to e (coordinates req) l) 2)),
         (''scannedAt'', Date (utcnow e)),
         (''notes'', opt_str (notes req))]])"
    by simp
  show "\<exists>evs ev l. scan_events_collection w = Some evs
         \<and> scan_events_collection w' = Some (evs @ [ev])
         \<and> active_location w (cg_supervisor_id cg) (qrId req) = Some l
         \<and> map fst ev =
             [''_id'', ''guardId'', ''supervisorId'', ''qrLocationId'', ''qrId'',
              ''locationName'', ''coordinates'', ''address'', ''areaCity'', ''areaState'',
              ''areaCountry'', ''isWithinRadius'', ''distanceFromQR'', ''scannedAt'',
              ''notes'']
         \<and> field ev ''_id'' = Some (ObjectId (scanEventId r))
         \<and> field ev ''guardId'' = Some (ObjectId (cg_guard_id cg))
         \<and> field ev ''supervisorId'' = Some (ObjectId (cg_supervisor_id cg))
         \<and> field ev ''qrLocationId'' = Some (ObjectId (loc_id l))
         \<and> field ev ''qrId'' = Some (Str (qrId req))
         \<and> field ev ''coordinates'' =
             Some (Doc [(''latitude'', Num (latitude (coordinates req))),
                        (''longitude'', Num (longitude (coordinates req)))])
         \<and> field ev ''isWithinRadius'' =
             Some (Boolean (distance_to e (coordinates req) l \<le> WITHIN_RADIUS_METERS e))
         \<and> field ev ''distanceFromQR'' =
             Some (Num (py_round (distance_to e (coordinates req) l) 2))
         \<and> field ev ''address'' = Some (Str (geocoded_address e))
         \<and> field ev ''scannedAt'' = Some (Date (utcnow e))
         \<and> field ev ''notes'' = Some (opt_str (notes req))
         \<and> field ev ''deviceInfo'' = None"
    apply (rule exI [of _ evs])
    apply (rule exI)
    apply (rule exI [of _ l])
    apply (intro conjI)
                    apply (rule c(2))
                   apply (rule st)
                  apply (rule l)
                 apply (simp_all add: field_def id)
    done
next
  assume h: "public_scan_qr_code e w preq = (Inr pr, pw')"
  from public_scan_qr_code_success_inv [OF h] obtain locs evs gs us sups u g l i where
    c: "qr_locations_collection w = Some locs" "scan_events_collection w = Some evs"
       "guards_collection w = Some gs" "users_collection w = Some us"
       "supervisors_collection w = Some sups"
    and g: "resolve_guard w (guardEmail preq) = Some (u, g)"
    and l: "active_location w (guard_supervisorId g) (qrId preq) = Some l"
    and ok: "scannable (coordinates preq) l"
    and i: "insert_one e = Returns i"
    by blast
  from public_scan_qr_code_response [OF c g l ok i] h have id: "scanEventId pr = i"
    by auto
  from public_scan_qr_code_stored [OF c g l ok i] h
  have st: "scan_events_collection pw' = Some (evs @
       [[(''_id'', ObjectId i),
         (''guardId'', ObjectId (guard_id g)),
         (''supervisorId'', ObjectId (guard_supervisorId g)),
         (''qrLocationId'', ObjectId (loc_id l)),
         (''qrId'', Str (qrId preq)),
         (''locationName'', Str (loc_locationName l)),
         (''coordinates'',
            Doc [(''latitude'', Num (latitude (coordinates preq))),
                 (''longitude'', Num (longitude (coordinates preq)))]),
         (''address'', Str (geocoded_address e)),
         (''areaCity'', Str (loc_areaCity l)),
         (''areaState'', Str (the (loc_areaState l))),
         (''areaCountry'', Str (the (loc_areaCountry l))),
         (''isWithinRadius'',
            Boolean (distance_to e (coordinates preq) l \<le> WITHIN_RADIUS_METERS e)),
         (''distanceFromQR'', Num (py_round (distance_to e (coordinates preq) l) 2)),
         (''scannedAt'', Date (utcnow e)),
         (''notes'', opt_str (notes preq)),
         (''deviceInfo'', opt_bson (deviceInfo preq))]])"
    by simp
  show "\<exists>evs ev u g l. scan_events_collection w = Some evs
         \<and> scan_events_collection pw' = Some (evs @ [ev])
         \<and> resolve_guard w (guardEmail preq) = Some (u, g)
         \<and> active_location w (guard_supervisorId g) (qrId preq) = Some l
         \<and> map fst ev =
             [''_id'', ''guardId'', ''supervisorId'', ''qrLocationId'', ''qrId'',
              ''locationName'', ''coordinates'', ''address'', ''areaCity'', ''areaState'',
              ''areaCountry'', ''isWithinRadius'', ''distanceFromQR'', ''scannedAt'',
              ''notes'', ''deviceInfo'']
         \<and> field ev ''_id'' = Some (ObjectId (scanEventId pr))
         \<and> field ev ''guardId'' = Some (ObjectId (guard_id g))
         \<and> field ev ''supervisorId'' = Some (ObjectId (guard_supervisorId g))
         \<and> field ev ''qrLocationId'' = Some (ObjectId (loc_id l))
         \<and> field ev ''qrId'' = Some (Str (qrId preq))
         \<and> field ev ''coordinates'' =
             Some (Doc [(''latitude'', Num (latitude (coordinates preq))),
                        (''longitude'', Num (longitude (coordinates preq)))])
         \<and> field ev ''isWithinRadius'' =
             Some (Boolean (distance_to e (coordinates preq) l \<le> WITHIN_RADIUS_METERS e))
         \<and> field ev ''distanceFromQR'' =
             Some (Num (py_round (distance_to e (coordinates preq) l) 2))
         \<and> field ev ''address'' = Some (Str (geocoded_address e))
         \<and> field ev ''scannedAt'' = Some (Date (utcnow e))
         \<and> field ev ''notes'' = Some (opt_str (notes preq))
         \<and> field ev ''deviceInfo'' = Some (opt_bson (deviceInfo preq))"
    apply (rule exI [of _ evs])
    apply (rule exI)
    apply (rule exI [of _ u])
    apply (rule exI [of _ g])
    apply (rule exI [of _ l])
    apply (intro conjI)
                     apply (rule c(2))
                    apply (rule st)
                   apply (rule g)
                  apply (rule l)
                 apply (simp_all add: field_def id)
    done
qed

text \<open>
  The documents stored for the concrete database: the authenticated route stores no device
  information, the public route stores the one of its request.
\<close>

theorem stored_event_witness:
  "(\<exists>r w' ev. scan_qr_code (demo_env 20 Raises (Returns ''ev1'')) demo_world demo_guard
                 (demo_request ''QR-GATE'' (1297 / 100) (7759 / 100)) = (Inr r, w')
      \<and> scan_events_collection w' = Some ([[(''_id'', ObjectId ''ev0'')]] @ [ev])
      \<and> field ev ''_id'' = Some (ObjectId ''ev1'')
      \<and> field ev ''guardId'' = Some (ObjectId ''g1'')
      \<and> field ev ''supervisorId'' = Some (ObjectId ''sup1'')
      \<and> field ev ''qrLocationId'' = Some (ObjectId ''loc1'')
      \<and> field ev ''isWithinRadius'' = Some (Boolean True)
      \<and> field ev ''distanceFromQR'' = Some (Num 20)
      \<and> field ev ''address'' = Some (Str [])
      \<and> field ev ''notes'' = Some Null
      \<and> field ev ''deviceInfo'' = None)
 \<and> (\<exists>r w' ev. public_scan_qr_code (demo_env 20 Raises (Returns ''ev1'')) demo_world
                 (demo_public_request ''QR-GATE'' (1297 / 100) (7759 / 100)) = (Inr r, w')
      \<and> scan_events_collection w' = Some ([[(''_id'', ObjectId ''ev0'')]] @ [ev])
      \<and> field ev ''_id'' = Some (ObjectId ''ev1'')
      \<and> field ev ''guardId'' = Some (ObjectId ''g1'')
      \<and> field ev ''supervisorId'' = Some (ObjectId ''sup1'')
      \<and> field ev ''qrLocationId'' = Some (ObjectId ''loc1'')
      \<and> field ev ''isWithinRadius'' = Some (Boolean True)
      \<and> field ev ''distanceFromQR'' = Some (Num 20)
      \<and> field ev ''address'' = Some (Str [])
      \<and> field ev ''notes'' = Some Null
      \<and> field ev ''deviceInfo'' = Some (Str ''android''))"
proof (intro conjI)
  let ?e = "demo_env 20 Raises (Returns ''ev1'')"
  let ?q = "demo_request ''QR-GATE'' (1297 / 100) (7759 / 100)"
  let ?s = "scan_qr_code ?e demo_world demo_guard ?q"
  obtain r where r: "fst ?s = Inr r" and id: "scanEventId r = ''ev1''"
    using demo_scan_response [where d = 20 and geo = Raises and i = "''ev1''"] by simp
  have h: "?s = (Inr r, snd ?s)"
    by (rule pair_fst_Inr [OF r])
  from stored_event_fields [THEN conjunct1, rule_format, OF h]
  obtain evs ev l where
    "scan_events_collection demo_world = Some evs"
    "scan_events_collection (snd ?s) = Some (evs @ [ev])"
    "active_location demo_world (cg_supervisor_id demo_guard) (qrId ?q) = Some l"
    "field ev ''_id'' = Some (ObjectId (scanEventId r))"
    "field ev ''guardId'' = Some (ObjectId (cg_guard_id demo_guard))"
    "field ev ''supervisorId'' = Some (ObjectId (cg_supervisor_id demo_guard))"
    "field ev ''qrLocationId'' = Some (ObjectId (loc_id l))"
    "field ev ''isWithinRadius'' =
       Some (Boolean (distance_to ?e (coordinates ?q) l \<le> WITHIN_RADIUS_METERS ?e))"
    "field ev ''distanceFromQR'' = Some (Num (py_round (distance_to ?e (coordinates ?q) l) 2))"
    "field ev ''address'' = Some (Str (geocoded_address ?e))"
    "field ev ''notes'' = Some (opt_str (notes ?q))"
    "field ev ''deviceInfo'' = None"
    by blast
  then have "scan_events_collection (snd ?s) = Some ([[(''_id'', ObjectId ''ev0'')]] @ [ev])
      \<and> field ev ''_id'' = Some (ObjectId ''ev1'')
      \<and> field ev ''guardId'' = Some (ObjectId ''g1'')
      \<and> field ev ''supervisorId'' = Some (ObjectId ''sup1'')
      \<and> field ev ''qrLocationId'' = Some (ObjectId ''loc1'')
      \<and> field ev ''isWithinRadius'' = Some (Boolean True)
      \<and> field ev ''distanceFromQR'' = Some (Num 20)
      \<and> field ev ''address'' = Some (Str [])
      \<and> field ev ''notes'' = Some Null
      \<and> field ev ''deviceInfo'' = None"
    using id demo_collections(5)
    by (simp add: demo_active_location demo_guard_def demo_request_def distance_to_def
        demo_env_def geocoded_address_def opt_str_def py_round_def round_half_even_def)
       (auto simp: demo_location_def)
  with h show "\<exists>r w' ev. ?s = (Inr r, w')
      \<and> scan_events_collection w' = Some ([[(''_id'', ObjectId ''ev0'')]] @ [ev])
      \<and> field ev ''_id'' = Some (ObjectId ''ev1'')
      \<and> field ev ''guardId'' = Some (ObjectId ''g1'')
      \<and> field ev ''supervisorId'' = Some (ObjectId ''sup1'')
      \<and> field ev ''qrLocationId'' = Some (ObjectId ''loc1'')
      \<and> field ev ''isWithinRadius'' = Some (Boolean True)
      \<and> field ev ''distanceFromQR'' = Some (Num 20)
      \<and> field ev ''address'' = Some (Str [])
      \<and> field ev ''notes'' = Some Null
      \<and> field ev ''deviceInfo'' = None"
    by blast
next
  let ?e = "demo_env 20 Raises (Returns ''ev1'')"
  let ?q = "demo_public_request ''QR-GATE'' (1297 / 100) (7759 / 100)"
  let ?s = "public_scan_qr_code ?e demo_world ?q"
  obtain r where r: "fst ?s = Inr r" and id: "scanEventId r = ''ev1''"
    using demo_public_scan_response [where d = 20 and geo = Raises and i = "''ev1''"] by simp
  have h: "?s = (Inr r, snd ?s)"
    by (rule pair_fst_Inr [OF r])
  from stored_event_fields [THEN conjunct2, rule_format, OF h]
  obtain evs ev u g l where
    "scan_events_collection demo_world = Some evs"
    "scan_events_collection (snd ?s) = Some (evs @ [ev])"
    "resolve_guard demo_world (guardEmail ?q) = Some (u, g)"
    "active_location demo_world (guard_supervisorId g) (qrId ?q) = Some l"
    "field ev ''_id'' = Some (ObjectId (scanEventId r))"
    "field ev ''guardId'' = Some (ObjectId (guard_id g))"
    "field ev ''supervisorId'' = Some (ObjectId (guard_supervisorId g))"
    "field ev ''qrLocationId'' = Some (ObjectId (loc_id l))"
    "field ev ''isWithinRadius'' =
       Some (Boolean (distance_to ?e (coordinates ?q) l \<le> WITHIN_RADIUS_METERS ?e))"
    "field ev ''distanceFromQR'' = Some (Num (py_round (distance_to ?e (coordinates ?q) l) 2))"
    "field ev ''address'' = Some (Str (geocoded_address ?e))"
    "field ev ''notes'' = Some (opt_str (notes ?q))"
    "field ev ''deviceInfo'' = Some (opt_bson (deviceInfo ?q))"
    by blast
  then have "scan_events_collection (snd ?s) = Some ([[(''_id'', ObjectId ''ev0'')]] @ [ev])
      \<and> field ev ''_id'' = Some (ObjectId ''ev1'')
      \<and> field ev ''guardId'' = Some (ObjectId ''g1'')
      \<and> field ev ''supervisorId'' = Some (ObjectId ''sup1'')
      \<and> field ev ''qrLocationId'' = Some (ObjectId ''loc1'')
      \<and> field ev ''isWithinRadius'' = Some (Boolean True)
      \<and> field ev ''distanceFromQR'' = Some (Num 20)
      \<and> field ev ''address'' = Some (Str [])
      \<and> field ev ''notes'' = Some Null
      \<and> field ev ''deviceInfo'' = Some (Str ''android'')"
    using id demo_collections(5)
    by (simp add: demo_resolve_guard demo_public_request_def distance_to_def
        demo_env_def geocoded_address_def opt_str_def opt_bson_def py_round_def
        round_half_even_def)
       (auto simp: demo_active_location demo_location_def)
  with h show "\<exists>r w' ev. ?s = (Inr r, w')
      \<and> scan_events_collection w' = Some ([[(''_id'', ObjectId ''ev0'')]] @ [ev])
      \<and> field ev ''_id'' = Some (ObjectId ''ev1'')
      \<and> field ev ''guardId'' = Some (ObjectId ''g1'')
      \<and> field ev ''supervisorId'' = Some (ObjectId ''sup1'')
      \<and> field ev ''qrLocationId'' = Some (ObjectId ''loc1'')
      \<and> field ev ''isWithinRadius'' = Some (Boolean True)
      \<and> field ev ''distanceFromQR'' = Some (Num 20)
      \<and> field ev ''address'' = Some (Str [])
      \<and> field ev ''notes'' = Some Null
      \<and> field ev ''deviceInfo'' = Some (Str ''android'')"
    by blast
qed


section \<open>The verdict\<close>

text \<open>
  Claim C8. In every response the distance is the computed distance rounded to two
  decimals. When the scan is within the radius the message is the confirmation
  \<^verbatim>\<open>QR code scanned successfully\<close>; otherwise it is the warning
  \<^verbatim>\<open>Warning: You are ...m away from the QR location\<close> around the computed distance
  rounded to one decimal. Both routes.
\<close>

theorem verdict_distance_and_message:
  "(scan_qr_code e w cg req = (Inr r, w') \<longrightarrow>
      (\<exists>l. active_location w (cg_supervisor_id cg) (qrId req) = Some l
         \<and> distanceFromQR r = py_round (distance_to e (coordinates req) l) 2
         \<and> (isWithinRadius r \<longrightarrow> message r = ''QR code scanned successfully'')
         \<and> (\<not> isWithinRadius r \<longrightarrow>
              message r = ''Warning: You are ''
                @ str_float1 (py_round (distance_to e (coordinates req) l) 1)
                @ ''m away from the QR location'')))
 \<and> (public_scan_qr_code e w preq = (Inr pr, pw') \<longrightarrow>
      (\<exists>u g l. resolve_guard w (guardEmail preq) = Some (u, g)
         \<and> active_location w (guard_supervisorId g) (qrId preq) = Some l
         \<and> distanceFromQR pr = py_round (distance_to e (coordinates preq) l) 2
         \<and> (isWithinRadius pr \<longrightarrow> message pr = ''QR code scanned successfully'')
         \<and> (\<not> isWithinRadius pr \<longrightarrow>
              message pr = ''Warning: You are ''
                @ str_float1 (py_round (distance_to e (coordinates preq) l) 1)
                @ ''m away from the QR location'')))"
proof (intro conjI impI)
  assume h: "scan_qr_code e w cg req = (Inr r, w')"
  from scan_qr_code_success_inv [OF h] obtain locs evs sups l i where
    c: "qr_locations_collection w = Some locs" "scan_events_collection w = Some evs"
       "supervisors_collection w = Some sups"
    and l: "active_location w (cg_supervisor_id cg) (qrId req) = Some l"
    and ok: "scannable (coordinates req) l"
    and i: "insert_one e = Returns i"
    by blast
  from scan_qr_code_response [OF c l ok i] h
  have "distanceFromQR r = py_round (distance_to e (coordinates req) l) 2
         \<and> (isWithinRadius r \<longrightarrow> message r = ''QR code scanned successfully'')
         \<and> (\<not> isWithinRadius r \<longrightarrow>
              message r = ''Warning: You are ''
                @ str_float1 (py_round (distance_to e (coordinates req) l) 1)
                @ ''m away from the QR location'')"
    by auto
  with l show "\<exists>l. active_location w (cg_supervisor_id cg) (qrId req) = Some l
         \<and> distanceFromQR r = py_round (distance_to e (coordinates req) l) 2
         \<and> (isWithinRadius r \<longrightarrow> message r = ''QR code scanned successfully'')
         \<and> (\<not> isWithinRadius r \<longrightarrow>
              message r = ''Warning: You are ''
                @ str_float1 (py_round (distance_to e (coordinates req) l) 1)
                @ ''m away from the QR location'')"
    by blast
next
  assume h: "public_scan_qr_code e w preq = (Inr pr, pw')"
  from public_scan_qr_code_success_inv [OF h] obtain locs evs gs us sups u g l i where
    c: "qr_locations_collection w = Some locs" "scan_events_collection w = Some evs"
       "guards_collection w = Some gs" "users_collection w = Some us"
       "supervisors_collection w = Some sups"
    and g: "resolve_guard w (guardEmail preq) = Some (u, g)"
    and l: "active_location w (guard_supervisorId g) (qrId preq) = Some l"
    and ok: "scannable (coordinates preq) l"
    and i: "insert_one e = Returns i"
    by blast
  from public_scan_qr_code_response [OF c g l ok i] h
  have "distanceFromQR pr = py_round (distance_to e (coordinates preq) l) 2
         \<and> (isWithinRadius pr \<longrightarrow> message pr = ''QR code scanned successfully'')
         \<and> (\<not> isWithinRadius pr \<longrightarrow>
              message pr = ''Warning: You are ''
                @ str_float1 (py_round (distance_to e (coordinates preq) l) 1)
                @ ''m away from the QR location'')"
    by auto
  with g l show "\<exists>u g l. resolve_guard w (guardEmail preq) = Some (u, g)
         \<and> active_location w (guard_supervisorId g) (qrId preq) = Some l
         \<and> distanceFromQR pr = py_round (distance_to e (coordinates preq) l) 2
         \<and> (isWithinRadius pr \<longrightarrow> message pr = ''QR code scanned successfully'')
         \<and> (\<not> isWithinRadius pr \<longrightarrow>
              message pr = ''Warning: You are ''
                @ str_float1 (py_round (distance_to e (coordinates preq) l) 1)
                @ ''m away from the QR location'')"
    by blast
qed

text \<open>Rounding and printing 57.34 metres.\<close>

lemma py_round_5734:
  "py_round (5734 / 100) 2 = 5734 / 100" "py_round (5734 / 100) 1 = 573 / 10"
  by (simp_all add: py_round_def round_half_even_def)

lemma str_float1_573: "str_float1 (573 / 10) = ''57.3''"
  by (simp add: str_float1_def str_nat.simps)

text \<open>At 57.34 metres the warning names 57.3 metres; at 20 metres the scan is confirmed.\<close>

theorem verdict_message_witness:
  "(\<exists>r w'. scan_qr_code (demo_env (5734 / 100) Raises (Returns ''ev1'')) demo_world demo_guard
              (demo_request ''QR-GATE'' (12972 / 1000) (77595 / 1000)) = (Inr r, w')
      \<and> distanceFromQR r = 5734 / 100
      \<and> message r = ''Warning: You are 57.3m away from the QR location'')
 \<and> (\<exists>r w'. public_scan_qr_code (demo_env 20 Raises (Returns ''ev1'')) demo_world
              (demo_public_request ''QR-GATE'' (1297 / 100) (7759 / 100)) = (Inr r, w')
      \<and> distanceFromQR r = 20
      \<and> message r = ''QR code scanned successfully'')"
proof (intro conjI)
  let ?e = "demo_env (5734 / 100) Raises (Returns ''ev1'')"
  let ?q = "demo_request ''QR-GATE'' (12972 / 1000) (77595 / 1000)"
  let ?s = "scan_qr_code ?e demo_world demo_guard ?q"
  obtain r where r: "fst ?s = Inr r" and f: "\<not> isWithinRadius r"
    using demo_scan_response [where d = "5734 / 100" and geo = Raises and i = "''ev1''"] by simp
  have h: "?s = (Inr r, snd ?s)"
    by (rule pair_fst_Inr [OF r])
  from verdict_distance_and_message [THEN conjunct1, rule_format, OF h] f
  obtain l where
    d: "distanceFromQR r = py_round (distance_to ?e (coordinates ?q) l) 2"
    and m: "message r = ''Warning: You are ''
                @ str_float1 (py_round (distance_to ?e (coordinates ?q) l) 1)
                @ ''m away from the QR location''"
    by blast
  have dist: "distance_to ?e (coordinates ?q) l = 5734 / 100"
    by (simp add: distance_to_def demo_env_def)
  from d m have "distanceFromQR r = 5734 / 100
      \<and> message r = ''Warning: You are 57.3m away from the QR location''"
    unfolding dist py_round_5734 str_float1_573 by simp
  with h show "\<exists>r w'. ?s = (Inr r, w') \<and> distanceFromQR r = 5734 / 100
      \<and> message r = ''Warning: You are 57.3m away from the QR location''"
    by blast
next
  let ?e = "demo_env 20 Raises (Returns ''ev1'')"
  let ?q = "demo_public_request ''QR-GATE'' (1297 / 100) (7759 / 100)"
  let ?s = "public_scan_qr_code ?e demo_world ?q"
  obtain r where r: "fst ?s = Inr r" and f: "isWithinRadius r"
    using demo_public_scan_response [where d = 20 and geo = Raises and i = "''ev1''"] by simp
  have h: "?s = (Inr r, snd ?s)"
    by (rule pair_fst_Inr [OF r])
  from verdict_distance_and_message [THEN conjunct2, rule_format, OF h] f
  obtain l where
    d: "distanceFromQR r = py_round (distance_to ?e (coordinates ?q) l) 2"
    and m: "message r = ''QR code scanned successfully''"
    by blast
  from d have "distanceFromQR r = 20"
    by (simp add: distance_to_def demo_env_def py_round_def round_half_even_def)
  with h m show "\<exists>r w'. ?s = (Inr r, w') \<and> distanceFromQR r = 20
      \<and> message r = ''QR code scanned successfully''"
    by blast
qed

section \<open>The event store over time\<close>

text \<open>One call leaves the stored events in place and adds at most one.\<close>

lemma scan_qr_code_events:
  assumes "scan_events_collection w = Some evs"
  shows "\<exists>new. scan_events_collection (snd (scan_qr_code e w cg req)) = Some (evs @ new)
           \<and> length new \<le> 1"
proof (cases "fst (scan_qr_code e w cg req)")
  case (Inl err)
  from scan_qr_code_failure_unchanged [OF Inl] assms show ?thesis
    by simp
next
  case (Inr r)
  then have h: "scan_qr_code e w cg req = (Inr r, snd (scan_qr_code e w cg req))"
    by (rule pair_fst_Inr)
  from scan_qr_code_success_inv [OF h] obtain locs evs' sups l i where
    c: "qr_locations_collection w = Some locs" "scan_events_collection w = Some evs'"
       "supervisors_collection w = Some sups"
    and l: "active_location w (cg_supervisor_id cg) (qrId req) = Some l"
    and ok: "scannable (coordinates req) l"
    and i: "insert_one e = Returns i"
    by blast
  from c(2) assms have "evs' = evs"
    by simp
  with scan_qr_code_stored [OF c l ok i] show ?thesis
    by simp
qed

lemma public_scan_qr_code_events:
  assumes "scan_events_collection w = Some evs"
  shows "\<exists>new. scan_events_collection (snd (public_scan_qr_code e w req)) = Some (evs @ new)
           \<and> length new \<le> 1"
proof (cases "fst (public_scan_qr_code e w req)")
  case (Inl err)
  from public_scan_qr_code_failure_unchanged [OF Inl] assms show ?thesis
    by simp
next
  case (Inr r)
  then have h: "public_scan_qr_code e w req = (Inr r, snd (public_scan_qr_code e w req))"
    by (rule pair_fst_Inr)
  from public_scan_qr_code_success_inv [OF h] obtain locs evs' gs us sups u g l i where
    c: "qr_locations_collection w = Some locs" "scan_events_collection w = Some evs'"
       "guards_collection w = Some gs" "users_collection w = Some us"
       "supervisors_collection w = Some sups"
    and g: "resolve_guard w (guardEmail req) = Some (u, g)"
    and l: "active_location w (guard_supervisorId g) (qrId req) = Some l"
    and ok: "scannable (coordinates req) l"
    and i: "insert_one e = Returns i"
    by blast
  from c(2) assms have "evs' = evs"
    by simp
  with public_scan_qr_code_stored [OF c g l ok i] show ?thesis
    by simp
qed

lemma perform_events:
  "scan_events_collection w = Some evs \<Longrightarrow>
   \<exists>new. scan_events_collection (perform w c) = Some (evs @ new) \<and> length new \<le> 1"
proof (cases c)
  case (GuardScan e cg req)
  assume "scan_events_collection w = Some evs"
  from scan_qr_code_events [OF this, of e cg req] show ?thesis
    unfolding GuardScan perform.simps .
next
  case (PublicScan e req)
  assume "scan_events_collection w = Some evs"
  from public_scan_qr_code_events [OF this, of e req] show ?thesis
    unfolding PublicScan perform.simps .
qed

text \<open>
  Claim C9. After any sequence of calls of the two scan routes, in any order and with any
  surroundings, the event store holds the events it held before, unchanged and in their
  places, followed by at most one new event for each call. So a stored event is never
  updated or deleted, and the one write of a call is the insert of its own event.
\<close>

theorem events_are_only_appended:
  "scan_events_collection w = Some evs \<Longrightarrow>
   \<exists>new. scan_events_collection (run w calls) = Some (evs @ new)
     \<and> length new \<le> length calls"
proof (induction calls arbitrary: w evs)
  case Nil
  then show ?case by (simp add: run_def)
next
  case (Cons c calls)
  from perform_events [OF Cons.prems, of c] obtain new1 where
    p: "scan_events_collection (perform w c) = Some (evs @ new1)" and n1: "length new1 \<le> 1"
    by blast
  from Cons.IH [OF p] obtain new2 where
    q: "scan_events_collection (run (perform w c) calls) = Some ((evs @ new1) @ new2)"
    and n2: "length new2 \<le> length calls"
    by blast
  have "run w (c # calls) = run (perform w c) calls"
    by (simp add: run_def)
  with q n1 n2 show ?case
    by (intro exI [of _ "new1 @ new2"]) simp
qed

text \<open>
  Three calls on the concrete database, the last one for the inactive location: the event
  stored beforehand is still the first one.
\<close>

theorem events_appended_witness:
  "scan_events_collection demo_world = Some [[(''_id'', ObjectId ''ev0'')]]
 \<and> (\<exists>new. scan_events_collection
       (run demo_world
          [GuardScan (demo_env 20 Raises (Returns ''ev1'')) demo_guard
             (demo_request ''QR-GATE'' (1297 / 100) (7759 / 100)),
           PublicScan (demo_env 80 Raises (Returns ''ev2''))
             (demo_public_request ''QR-GATE'' (1297 / 100) (7759 / 100)),
           GuardScan (demo_env 20 Raises (Returns ''ev3'')) demo_guard
             (demo_request ''QR-OLD'' (1297 / 100) (7759 / 100))])
       = Some ([[(''_id'', ObjectId ''ev0'')]] @ new)
     \<and> length new \<le> 3)"
  using events_are_only_appended [OF demo_collections(5),
      of "[GuardScan (demo_env 20 Raises (Returns ''ev1'')) demo_guard
             (demo_request ''QR-GATE'' (1297 / 100) (7759 / 100)),
           PublicScan (demo_env 80 Raises (Returns ''ev2''))
             (demo_public_request ''QR-GATE'' (1297 / 100) (7759 / 100)),
           GuardScan (demo_env 20 Raises (Returns ''ev3'')) demo_guard
             (demo_request ''QR-OLD'' (1297 / 100) (7759 / 100))]"]
  by (simp add: demo_collections(5) numeral_3_eq_3)

section \<open>The two routes agree\<close>

text \<open>
  Claim C10. Let the public route resolve the e-mail address of its request to a guard of
  the same supervisor as the authenticated guard, and let both requests name the same QR
  id and coordinates. In the same database and surroundings (the same locations, the
  same radius) both routes then fail with the same error or return the same flag, the
  same rounded distance and the same message.
\<close>

theorem routes_compute_the_same_verdict:
  "guards_collection w = Some gs \<and> users_collection w = Some us
     \<and> resolve_guard w (guardEmail preq) = Some (u, g)
     \<and> guard_supervisorId g = cg_supervisor_id cg
     \<and> qrId preq = qrId req \<and> coordinates preq = coordinates req \<longrightarrow>
   verdict (fst (public_scan_qr_code e w preq)) = verdict (fst (scan_qr_code e w cg req))"
proof
  assume a: "guards_collection w = Some gs \<and> users_collection w = Some us
     \<and> resolve_guard w (guardEmail preq) = Some (u, g)
     \<and> guard_supervisorId g = cg_supervisor_id cg
     \<and> qrId preq = qrId req \<and> coordinates preq = coordinates req"
  then have gu: "guards_collection w = Some gs" "users_collection w = Some us"
    and g: "resolve_guard w (guardEmail preq) = Some (u, g)"
    and s: "guard_supervisorId g = cg_supervisor_id cg"
    and q: "qrId preq = qrId req" "coordinates preq = coordinates req"
    by simp_all
  show "verdict (fst (public_scan_qr_code e w preq)) = verdict (fst (scan_qr_code e w cg req))"
  proof (cases "qr_locations_collection w = None \<or> scan_events_collection w = None
     \<or> supervisors_collection w = None")
    case True
    then have "qr_locations_collection w = None \<or> scan_events_collection w = None
     \<or> guards_collection w = None \<or> users_collection w = None
     \<or> supervisors_collection w = None"
      by auto
    then show ?thesis
      by (simp add: public_scan_qr_code_unavailable scan_qr_code_unavailable [OF True] verdict_def)
  next
    case False
    then obtain locs evs sups where c: "qr_locations_collection w = Some locs"
      "scan_events_collection w = Some evs" "supervisors_collection w = Some sups"
      by auto
    show ?thesis
    proof (cases "active_location w (cg_supervisor_id cg) (qrId req)")
      case None
      then have "active_location w (guard_supervisorId g) (qrId preq) = None"
        by (simp add: s q)
      then show ?thesis
        by (simp add: public_scan_qr_code_not_found [OF c(1,2) gu c(3) g]
            scan_qr_code_not_found [OF c None] verdict_def)
    next
      case (Some l)
      then have pl: "active_location w (guard_supervisorId g) (qrId preq) = Some l"
        by (simp add: s q)
      show ?thesis
      proof (cases "scannable (coordinates req) l")
        case False
        then have "\<not> scannable (coordinates preq) l"
          by (simp add: q)
        then show ?thesis
          by (simp add: public_scan_qr_code_not_scannable [OF c(1,2) gu c(3) g pl]
              scan_qr_code_not_scannable [OF c Some False] verdict_def)
      next
        case True
        then have ok: "scannable (coordinates preq) l"
          by (simp add: q)
        show ?thesis
        proof (cases "insert_one e")
          case Raises
          show ?thesis
            by (simp add: public_scan_qr_code_insert_raises [OF c(1,2) gu c(3) g pl Raises]
                scan_qr_code_insert_raises [OF c Some Raises] verdict_def)
        next
          case (Returns i)
          show ?thesis
            by (simp add: public_scan_qr_code_response [OF c(1,2) gu c(3) g pl ok Returns]
                scan_qr_code_response [OF c Some True Returns] verdict_def q)
        qed
      qed
    qed
  qed
qed

text \<open>Both routes at 57.34 metres from the location of the concrete database.\<close>

theorem routes_same_verdict_witness:
  "verdict (fst (public_scan_qr_code (demo_env (5734 / 100) Raises (Returns ''ev1'')) demo_world
       (demo_public_request ''QR-GATE'' (12972 / 1000) (77595 / 1000))))
   = verdict (fst (scan_qr_code (demo_env (5734 / 100) Raises (Returns ''ev1'')) demo_world
       demo_guard (demo_request ''QR-GATE'' (12972 / 1000) (77595 / 1000))))
 \<and> verdict (fst (scan_qr_code (demo_env (5734 / 100) Raises (Returns ''ev1'')) demo_world
       demo_guard (demo_request ''QR-GATE'' (12972 / 1000) (77595 / 1000))))
   = Inr (False, 5734 / 100, ''Warning: You are 57.3m away from the QR location'')"
proof
  let ?pq = "demo_public_request ''QR-GATE'' (12972 / 1000) (77595 / 1000)"
  let ?q = "demo_request ''QR-GATE'' (12972 / 1000) (77595 / 1000)"
  let ?u = "\<lparr>user_id = ''u1'', user_email = ''guard@example.org'', user_role = ''GUARD'',
             user_isActive = True, user_name = ''Asha''\<rparr>"
  let ?g = "\<lparr>guard_id = ''g1'', guard_userId = ''u1'', guard_supervisorId = ''sup1''\<rparr>"
  have "resolve_guard demo_world (guardEmail ?pq) = Some (?u, ?g)"
    by (simp add: demo_resolve_guard demo_public_request_def)
  moreover have "guard_supervisorId ?g = cg_supervisor_id demo_guard"
    by (simp add: demo_guard_def)
  moreover have "qrId ?pq = qrId ?q \<and> coordinates ?pq = coordinates ?q"
    by (simp add: demo_public_request_def demo_request_def)
  ultimately show "verdict (fst (public_scan_qr_code
       (demo_env (5734 / 100) Raises (Returns ''ev1'')) demo_world ?pq))
   = verdict (fst (scan_qr_code (demo_env (5734 / 100) Raises (Returns ''ev1'')) demo_world
       demo_guard ?q))"
    using demo_collections(1,2) routes_compute_the_same_verdict [rule_format,
      of demo_world _ _ ?pq ?u ?g demo_guard ?q]
    by blast
next
  show "verdict (fst (scan_qr_code (demo_env (5734 / 100) Raises (Returns ''ev1'')) demo_world
       demo_guard (demo_request ''QR-GATE'' (12972 / 1000) (77595 / 1000))))
   = Inr (False, 5734 / 100, ''Warning: You are 57.3m away from the QR location'')"
    using demo_scan_response [where d = "5734 / 100" and geo = Raises and i = "''ev1''"
        and lat = "12972 / 1000" and lon = "77595 / 1000"]
    by (simp add: verdict_def py_round_def round_half_even_def str_float1_def str_nat.simps)
qed

end
